theory Spec2Isabelle
  imports Main
begin

section \<open>Values, responses and the persisted state\<close>

text \<open>
  The playlist backend of \<^verbatim>\<open>app.py\<close> and \<^verbatim>\<open>db.py\<close>. A handler is a function from
  its arguments and the state to a response and the new state. JSON data (what
  \<^verbatim>\<open>json.dumps\<close> receives, and the values \<^verbatim>\<open>body.get\<close> hands out) is the datatype
  \<open>json\<close>; floating point numbers are left out.

  A handler's result is either the pair of \<^verbatim>\<open>success_response\<close>/\<^verbatim>\<open>failure_response\<close>
  (a JSON text and a status code) or an exception that no handler catches, which leaves
  the handler (\<open>Unhandled\<close>).
\<close>

datatype json =
  JNull | JBool bool | JInt int | JStr string | JList "json list" | JObj "(string \<times> json) list"

text \<open>
  The exceptions of the model: \<open>ValueError\<close> is what \<^verbatim>\<open>json.loads\<close> raises (a
  \<^verbatim>\<open>JSONDecodeError\<close> or a \<^verbatim>\<open>UnicodeDecodeError\<close>, both value errors), \<open>OverflowError\<close>
  what the database driver raises for an integer that SQLite cannot hold.
\<close>

datatype exn = ValueError | AttributeError | TypeError | OverflowError | IntegrityError
  | UnmappedInstanceError | Exception string

datatype response = Response json nat | Unhandled exn

definition success_response :: "json \<Rightarrow> nat \<Rightarrow> response" where
  "success_response data code = Response data code"

definition failure_response :: "string \<Rightarrow> nat \<Rightarrow> response" where
  "failure_response message code = Response (JObj [(''error'', JStr message)]) code"

text \<open>
  The body of a request, as \<^verbatim>\<open>body = json.loads(request.data)\<close> and \<^verbatim>\<open>body.get(key)\<close>
  see it:
  \<^item> \<open>Not_JSON\<close>: the data is not a JSON text (an empty body, for one), and
    \<^verbatim>\<open>json.loads\<close> raises;
  \<^item> \<open>Not_object\<close>: the data is a JSON text for a list, a string, a number, a boolean
    or \<^verbatim>\<open>null\<close>, none of which has an attribute \<^verbatim>\<open>get\<close>, and the first
    \<^verbatim>\<open>body.get\<close> raises an attribute error;
  \<^item> \<open>Object fields\<close>: the data is a JSON object, and \<open>fields\<close> holds what \<^verbatim>\<open>body.get\<close>
    returns for the keys that the handler reads, \<^verbatim>\<open>None\<close> for a key that is absent or
    \<^verbatim>\<open>null\<close>.
\<close>

datatype 'a body = Not_JSON | Not_object | Object 'a

text \<open>
  The tables of \<^verbatim>\<open>db.py\<close>. Every \<^verbatim>\<open>id\<close> column is an integer primary key; the field
  names carry a prefix because record fields share one name space. An \<^verbatim>\<open>Asset\<close> object
  exists before it is committed, with attributes that may still be \<^verbatim>\<open>None\<close>, so its
  fields are options.
\<close>

record user =
  u_id :: int
  username :: string

record playlist =
  p_id :: int
  playlist_name :: string
  user_id :: int
  image_id :: "int option"

record song =
  s_id :: int
  title :: string
  artist :: string
  bpm :: int
  link :: string

record img =
  i_id :: int
  i_link :: string

record asset =
  a_id :: "int option"
  base_url :: "string option"
  salt :: "string option"
  extension :: "string option"
  width :: "int option"
  height :: "int option"
  created_at :: "string option"

text \<open>
  The state: the five tables, the association table \<^verbatim>\<open>playlist_song_association\<close>
  (rows \<open>(playlist_id, song_id)\<close>, no key of its own), the objects held by the remote
  bucket, and the lines printed so far.
\<close>

record state =
  users :: "user list"
  playlists :: "playlist list"
  songs :: "song list"
  images :: "img list"
  assets :: "asset list"
  assoc :: "(int \<times> int) list"
  remote :: "string list"
  stdout :: "string list"

definition empty_state :: state where
  "empty_state = \<lparr>users = [], playlists = [], songs = [], images = [], assets = [],
     assoc = [], remote = [], stdout = []\<rparr>"

text \<open>
  \<^verbatim>\<open>autoincrement=True\<close> on an SQLite integer primary key (the database is
  \<^verbatim>\<open>sqlite:///hack.db\<close>, and no \<^verbatim>\<open>sqlite_autoincrement\<close> is set) makes the column an
  alias of the row id: a new row gets the largest id in use plus one, and 1 in an empty
  table (as long as the largest id in use is below the largest integer of SQLite).
\<close>

definition next_id :: "int list \<Rightarrow> int" where
  "next_id ids = fold max ids 0 + 1"

text \<open>The first row of a table with a given id, if there is one.\<close>

definition get_user :: "state \<Rightarrow> int \<Rightarrow> user option" where
  "get_user st k = find (\<lambda>u. u_id u = k) (users st)"

definition get_playlist :: "state \<Rightarrow> int \<Rightarrow> playlist option" where
  "get_playlist st k = find (\<lambda>p. p_id p = k) (playlists st)"

definition get_song :: "state \<Rightarrow> int \<Rightarrow> song option" where
  "get_song st k = find (\<lambda>s. s_id s = k) (songs st)"

text \<open>\<^verbatim>\<open>filter_by(id=None)\<close> compares with \<^verbatim>\<open>NULL\<close> and finds no row.\<close>

definition get_img :: "state \<Rightarrow> int option \<Rightarrow> img option" where
  "get_img st k = (case k of None \<Rightarrow> None | Some n \<Rightarrow> find (\<lambda>i. i_id i = n) (images st))"

definition get_asset :: "state \<Rightarrow> int option \<Rightarrow> asset option" where
  "get_asset st k = (case k of None \<Rightarrow> None | Some n \<Rightarrow> find (\<lambda>a. a_id a = Some n) (assets st))"

text \<open>
  An integer of SQLite has 64 bits, with a sign. The driver passes a Python integer to
  SQLite as such an integer and raises \<^verbatim>\<open>OverflowError\<close> for one outside the range from
  \<open>- 2\<^sup>6\<^sup>3\<close> to \<open>2\<^sup>6\<^sup>3 - 1\<close>. That happens where a value of the request becomes the
  parameter of a statement: the id of a path in \<^verbatim>\<open>Model.query.filter_by(id=k).first()\<close>
  (the \<^verbatim>\<open>int\<close> converter of a route takes any sequence of digits), and the \<^verbatim>\<open>bpm\<close> of
  a new song at the commit. A value read from a row was stored by SQLite and is in the
  range.
\<close>

definition sqlite_int :: "int \<Rightarrow> bool" where
  "sqlite_int n \<longleftrightarrow> - 9223372036854775808 \<le> n \<and> n \<le> 9223372036854775807"

definition first_by_id :: "(int \<Rightarrow> 'a option) \<Rightarrow> int \<Rightarrow> exn + 'a option" where
  "first_by_id row k = (if sqlite_int k then Inr (row k) else Inl OverflowError)"

subsection \<open>Relationships\<close>

text \<open>
  \<^verbatim>\<open>Playlist.songs\<close> is loaded through the association table, \<^verbatim>\<open>Playlist.image\<close>
  through the foreign key \<^verbatim>\<open>image_id\<close>, \<^verbatim>\<open>Playlist.user\<close> through \<^verbatim>\<open>user_id\<close>,
  \<^verbatim>\<open>User.playlists\<close> and \<^verbatim>\<open>Img.playlist\<close> (\<^verbatim>\<open>uselist=False\<close>) through the foreign
  keys of the playlist table.
\<close>

definition playlist_song_ids :: "state \<Rightarrow> int \<Rightarrow> int list" where
  "playlist_song_ids st pid = map snd (filter (\<lambda>r. fst r = pid) (assoc st))"

definition playlist_songs :: "state \<Rightarrow> playlist \<Rightarrow> song list" where
  "playlist_songs st p = List.map_filter (get_song st) (playlist_song_ids st (p_id p))"

definition playlist_image :: "state \<Rightarrow> playlist \<Rightarrow> img option" where
  "playlist_image st p = get_img st (image_id p)"

definition playlist_user :: "state \<Rightarrow> playlist \<Rightarrow> user option" where
  "playlist_user st p = get_user st (user_id p)"

definition user_playlists :: "state \<Rightarrow> int \<Rightarrow> playlist list" where
  "user_playlists st uid = filter (\<lambda>p. user_id p = uid) (playlists st)"

definition img_playlist :: "state \<Rightarrow> img \<Rightarrow> playlist option" where
  "img_playlist st i = find (\<lambda>p. image_id p = Some (i_id i)) (playlists st)"

subsection \<open>Serializers\<close>

definition User_simple_serialize :: "user \<Rightarrow> json" where
  "User_simple_serialize u = JObj [(''id'', JInt (u_id u)), (''username'', JStr (username u))]"

definition Img_simple_serialize :: "img \<Rightarrow> json" where
  "Img_simple_serialize i = JObj [(''id'', JInt (i_id i)), (''link'', JStr (i_link i))]"

definition Song_simple_serialize :: "song \<Rightarrow> json" where
  "Song_simple_serialize s = JObj [(''id'', JInt (s_id s)), (''title'', JStr (title s)),
     (''artist'', JStr (artist s)), (''bpm'', JInt (bpm s)), (''link'', JStr (link s))]"

definition Song_exists_serialize :: "song \<Rightarrow> json" where
  "Song_exists_serialize s = JObj [(''title'', JStr (title s)),
     (''artist'', JStr (artist s)), (''bpm'', JInt (bpm s)), (''link'', JStr (link s))]"

definition image_json :: "state \<Rightarrow> playlist \<Rightarrow> json" where
  "image_json st p =
     (case playlist_image st p of None \<Rightarrow> JNull | Some i \<Rightarrow> Img_simple_serialize i)"

definition Playlist_simple_serialize :: "state \<Rightarrow> playlist \<Rightarrow> json" where
  "Playlist_simple_serialize st p = JObj [(''id'', JInt (p_id p)),
     (''playlist_name'', JStr (playlist_name p)), (''image'', image_json st p)]"

definition Playlist_no_image_serialize :: "playlist \<Rightarrow> json" where
  "Playlist_no_image_serialize p =
     JObj [(''id'', JInt (p_id p)), (''playlist_name'', JStr (playlist_name p))]"

text \<open>
  \<^verbatim>\<open>Playlist.serialize\<close> calls \<^verbatim>\<open>self.user.simple_serialize()\<close> and \<^verbatim>\<open>Img.serialize\<close>
  calls \<^verbatim>\<open>self.playlist.no_image_serialize()\<close>: an attribute access on \<^verbatim>\<open>None\<close> when
  the related row is missing.
\<close>

definition Playlist_serialize :: "state \<Rightarrow> playlist \<Rightarrow> exn + json" where
  "Playlist_serialize st p =
     (case playlist_user st p of
        None \<Rightarrow> Inl AttributeError
      | Some u \<Rightarrow> Inr (JObj [(''id'', JInt (p_id p)),
          (''playlist_name'', JStr (playlist_name p)),
          (''image'', image_json st p),
          (''user'', User_simple_serialize u),
          (''songs'', JList (map Song_simple_serialize (playlist_songs st p)))]))"

definition Img_serialize :: "state \<Rightarrow> img \<Rightarrow> exn + json" where
  "Img_serialize st i =
     (case img_playlist st i of
        None \<Rightarrow> Inl AttributeError
      | Some p \<Rightarrow> Inr (JObj [(''id'', JInt (i_id i)), (''link'', JStr (i_link i)),
          (''playlist'', Playlist_no_image_serialize p)]))"

definition User_serialize :: "state \<Rightarrow> user \<Rightarrow> json" where
  "User_serialize st u = JObj [(''id'', JInt (u_id u)), (''username'', JStr (username u)),
     (''playlists'', JList (map (Playlist_simple_serialize st) (user_playlists st (u_id u))))]"

section \<open>The asset pipeline\<close>

text \<open>
  What \<^verbatim>\<open>Asset.create\<close> and \<^verbatim>\<open>Asset.upload\<close> take from outside the repository is a
  parameter of the model, one record per call:
  \<^item> \<open>bucket\<close>: the environment variable \<^verbatim>\<open>S3_BUCKET_NAME\<close>;
  \<^item> \<open>guess_ext\<close>: \<^verbatim>\<open>guess_extension(guess_type(image_data)[0])[1:]\<close>, the extension or
    the message of the exception raised there;
  \<^item> \<open>rnd\<close>: the draws of \<^verbatim>\<open>random.SystemRandom()\<close>, one per character of the salt;
  \<^item> \<open>decode\<close>: the prefix removal, \<^verbatim>\<open>b64decode\<close> and \<^verbatim>\<open>Image.open\<close>, giving width and
    height or the message of the exception raised there;
  \<^item> \<open>now\<close>: \<^verbatim>\<open>datetime.datetime.now()\<close>, as it prints;
  \<^item> \<open>s3\<close>: what saving and uploading the file of a given name does.
\<close>

datatype upload_outcome = Uploaded | Failed_before_store string | Failed_after_store string

record env =
  bucket :: "string option"
  guess_ext :: "string \<Rightarrow> string + string"
  rnd :: "nat \<Rightarrow> nat"
  decode :: "string \<Rightarrow> string + (int \<times> int)"
  now :: string
  s3 :: "string \<Rightarrow> upload_outcome"

definition EXTENSIONS :: "string list" where
  "EXTENSIONS = [''png'', ''gif'', ''jpg'', ''jpeg'']"

text \<open>An f-string prints \<^verbatim>\<open>None\<close> for an attribute that is not set.\<close>

definition fmt :: "string option \<Rightarrow> string" where
  "fmt v = (case v of None \<Rightarrow> ''None'' | Some s \<Rightarrow> s)"

definition S3_BASE_URL :: "env \<Rightarrow> string" where
  "S3_BASE_URL e = ''https://'' @ fmt (bucket e) @ ''.s3.us-east-1.amazonaws.com''"

definition salt_alphabet :: string where
  "salt_alphabet = ''ABCDEFGHIJKLMNOPQRSTUVWXYZ0123456789''"

text \<open>\<^verbatim>\<open>choice(seq)\<close> is \<^verbatim>\<open>seq[randbelow(len(seq))]\<close>.\<close>

definition choice :: "'a list \<Rightarrow> nat \<Rightarrow> 'a" where
  "choice seq r = seq ! (r mod length seq)"

definition make_salt :: "env \<Rightarrow> string" where
  "make_salt e = map (\<lambda>i. choice salt_alphabet (rnd e i)) [0..<16]"

definition asset_url :: "asset \<Rightarrow> string" where
  "asset_url a = fmt (base_url a) @ ''/'' @ fmt (salt a) @ ''.'' @ fmt (extension a)"

definition Asset_serialize :: "asset \<Rightarrow> json" where
  "Asset_serialize a =
     JObj [(''url'', JStr (asset_url a)), (''created_at'', JStr (fmt (created_at a)))]"

definition blank_asset :: asset where
  "blank_asset = \<lparr>a_id = None, base_url = None, salt = None, extension = None,
     width = None, height = None, created_at = None\<rparr>"

text \<open>
  A call that may raise returns \<open>Inl\<close> of the exception's message, together with the
  object and the state as the call leaves them. \<open>upload_try\<close> is the body of the \<^verbatim>\<open>try\<close>
  in \<^verbatim>\<open>upload\<close>, \<open>upload\<close> adds its \<^verbatim>\<open>except Exception\<close>; likewise \<open>create_try\<close> and
  \<open>create\<close>.
\<close>

definition upload_try :: "env \<Rightarrow> string \<Rightarrow> state \<Rightarrow> (string + unit) \<times> state" where
  "upload_try e img_filename st =
     (case s3 e img_filename of
        Uploaded \<Rightarrow> (Inr (), st\<lparr>remote := remote st @ [img_filename]\<rparr>)
      | Failed_before_store m \<Rightarrow> (Inl m, st)
      | Failed_after_store m \<Rightarrow> (Inl m, st\<lparr>remote := remote st @ [img_filename]\<rparr>))"

definition upload :: "env \<Rightarrow> string \<Rightarrow> state \<Rightarrow> (string + unit) \<times> state" where
  "upload e img_filename st =
     (case upload_try e img_filename st of
        (Inl m, st') \<Rightarrow>
          (Inr (), st'\<lparr>stdout := stdout st' @ [''Error when uploading image: '' @ m]\<rparr>)
      | (Inr u, st') \<Rightarrow> (Inr u, st'))"

definition create_try ::
  "env \<Rightarrow> string \<Rightarrow> asset \<Rightarrow> state \<Rightarrow> (string + unit) \<times> asset \<times> state" where
  "create_try e image_data self st =
     (case guess_ext e image_data of
        Inl m \<Rightarrow> (Inl m, self, st)
      | Inr ext \<Rightarrow>
          if ext \<notin> set EXTENSIONS
          then (Inl (''Extension '' @ ext @ '' is not valid.''), self, st)
          else
            let salt' = make_salt e in
            (case decode e image_data of
               Inl m \<Rightarrow> (Inl m, self, st)
             | Inr (w, h) \<Rightarrow>
                 let self' = self\<lparr>base_url := Some (S3_BASE_URL e), salt := Some salt',
                       extension := Some ext, width := Some w, height := Some h,
                       created_at := Some (now e)\<rparr>;
                     img_filename = fmt (salt self') @ ''.'' @ fmt (extension self')
                 in (case upload e img_filename st of
                       (Inl m, st') \<Rightarrow> (Inl m, self', st')
                     | (Inr u, st') \<Rightarrow> (Inr (), self', st'))))"

definition create ::
  "env \<Rightarrow> string \<Rightarrow> asset \<Rightarrow> state \<Rightarrow> (string + unit) \<times> asset \<times> state" where
  "create e image_data self st =
     (case create_try e image_data self st of
        (Inl m, self', st') \<Rightarrow>
          (Inr (), self', st'\<lparr>stdout := stdout st' @ [''Error when creating image: '' @ m]\<rparr>)
      | (Inr u, self', st') \<Rightarrow> (Inr u, self', st'))"

text \<open>
  The constructor \<^verbatim>\<open>Asset(image_data=...)\<close>: \<^verbatim>\<open>create\<close> on a fresh object, which is
  the result unless \<^verbatim>\<open>create\<close> raises.
\<close>

definition Asset :: "env \<Rightarrow> string \<Rightarrow> state \<Rightarrow> (string + asset) \<times> state" where
  "Asset e image_data st =
     (case create e image_data blank_asset st of
        (Inl m, self, st') \<Rightarrow> (Inl m, st')
      | (Inr u, self, st') \<Rightarrow> (Inr self, st'))"

text \<open>
  Every column of the asset table but the id is \<^verbatim>\<open>nullable=False\<close>: committing an object
  with an attribute still \<^verbatim>\<open>None\<close> raises an integrity error.
\<close>

definition populated :: "asset \<Rightarrow> bool" where
  "populated a \<longleftrightarrow> base_url a \<noteq> None \<and> salt a \<noteq> None \<and> extension a \<noteq> None \<and>
     width a \<noteq> None \<and> height a \<noteq> None \<and> created_at a \<noteq> None"

definition unpopulated :: "asset \<Rightarrow> bool" where
  "unpopulated a \<longleftrightarrow> base_url a = None \<and> salt a = None \<and> extension a = None \<and>
     width a = None \<and> height a = None \<and> created_at a = None"

section \<open>The request handlers\<close>

text \<open>
  A handler takes the path parameters, the body of the request and the state. A field
  that is stored in a typed column has, when it is there, the type that the handler's
  docstring gives it (\<^verbatim>\<open><str>\<close> or \<^verbatim>\<open><int>\<close>). The two bounds of the tempo search are
  stored nowhere and reach \<^verbatim>\<open>range\<close> as they were sent, so they are JSON values, with
  \<open>JNull\<close> for \<^verbatim>\<open>None\<close>. The testing routes under \<^verbatim>\<open>/test/\<close> are not modelled.
\<close>

definition create_new_user :: "string option body \<Rightarrow> state \<Rightarrow> response \<times> state" where
  "create_new_user body st =
     (case body of
        Not_JSON \<Rightarrow> (Unhandled ValueError, st)
      | Not_object \<Rightarrow> (Unhandled AttributeError, st)
      | Object username' \<Rightarrow>
          (case username' of
             None \<Rightarrow> (failure_response ''Please input a username'' 400, st)
           | Some name \<Rightarrow>
               let new_user = \<lparr>u_id = next_id (map u_id (users st)), username = name\<rparr>;
                   st' = st\<lparr>users := users st @ [new_user]\<rparr>
               in (success_response (User_serialize st' new_user) 200, st')))"

text \<open>
  The id of a new row is set by the commit. \<open>new_song\<close> carries it from the start; the
  duplicate test reads \<^verbatim>\<open>exists_serialize\<close>, which has no id. The commit passes the
  \<^verbatim>\<open>bpm\<close> of the request to SQLite.
\<close>

definition add_song_to_database ::
  "(string option \<times> string option \<times> int option \<times> string option) body \<Rightarrow> state \<Rightarrow>
     response \<times> state"
where
  "add_song_to_database body st =
     (case body of
        Not_JSON \<Rightarrow> (Unhandled ValueError, st)
      | Not_object \<Rightarrow> (Unhandled AttributeError, st)
      | Object (title', artist', bpm', link') \<Rightarrow>
          (case (title', artist', bpm', link') of
             (Some t, Some a, Some b, Some l) \<Rightarrow>
               let new_song = \<lparr>s_id = next_id (map s_id (songs st)), title = t, artist = a,
                     bpm = b, link = l\<rparr>
               in if Song_exists_serialize new_song \<in> set (map Song_exists_serialize (songs st))
                  then (failure_response ''Song already exists'' 401, st)
                  else if sqlite_int b
                    then (success_response (Song_simple_serialize new_song) 201,
                          st\<lparr>songs := songs st @ [new_song]\<rparr>)
                    else (Unhandled OverflowError, st)
           | _ \<Rightarrow> (failure_response ''Please input all requested data'' 400, st)))"

text \<open>
  \<^verbatim>\<open>song["bpm"] in range(lower_bpm, upper_bpm + 1)\<close>: \<^verbatim>\<open>range\<close> takes integers (a
  boolean is one), and \<^verbatim>\<open>upper_bpm + 1\<close> or \<^verbatim>\<open>range\<close> raise a type error on a string,
  a list or an object. The stored \<^verbatim>\<open>bpm\<close> is an integer.
\<close>

fun py_index :: "json \<Rightarrow> int option" where
  "py_index (JInt n) = Some n"
| "py_index (JBool b) = Some (if b then 1 else 0)"
| "py_index _ = None"

definition in_range :: "int \<Rightarrow> json \<Rightarrow> json \<Rightarrow> exn + bool" where
  "in_range x lower_bpm upper_bpm =
     (case (py_index lower_bpm, py_index upper_bpm) of
        (Some lo, Some hi) \<Rightarrow> Inr (lo \<le> x \<and> x < hi + 1)
      | _ \<Rightarrow> Inl TypeError)"

fun filter_loop :: "json \<Rightarrow> json \<Rightarrow> song list \<Rightarrow> json list \<Rightarrow> exn + json list" where
  "filter_loop lower_bpm upper_bpm [] filtered_songs = Inr filtered_songs"
| "filter_loop lower_bpm upper_bpm (s # all_songs) filtered_songs =
     (case in_range (bpm s) lower_bpm upper_bpm of
        Inl e \<Rightarrow> Inl e
      | Inr b \<Rightarrow> filter_loop lower_bpm upper_bpm all_songs
          (if b then filtered_songs @ [Song_simple_serialize s] else filtered_songs))"

definition get_songs_bpm :: "(json \<times> json) body \<Rightarrow> state \<Rightarrow> response \<times> state" where
  "get_songs_bpm body st =
     (case body of
        Not_JSON \<Rightarrow> (Unhandled ValueError, st)
      | Not_object \<Rightarrow> (Unhandled AttributeError, st)
      | Object (lower_bpm, upper_bpm) \<Rightarrow>
          if lower_bpm = JNull \<or> upper_bpm = JNull
          then (failure_response ''Please input a bpm range'' 400, st)
          else case filter_loop lower_bpm upper_bpm (songs st) [] of
                 Inl e \<Rightarrow> (Unhandled e, st)
               | Inr filtered_songs \<Rightarrow>
                   if filtered_songs = []
                   then (failure_response ''No songs in this range were found'' 400, st)
                   else (success_response (JList filtered_songs) 200, st))"

definition get_user_playlists :: "int \<Rightarrow> state \<Rightarrow> response \<times> state" where
  "get_user_playlists uid st =
     (case first_by_id (get_user st) uid of
        Inl x \<Rightarrow> (Unhandled x, st)
      | Inr None \<Rightarrow> (failure_response ''User not found'' 404, st)
      | Inr (Some u) \<Rightarrow> (success_response (JObj [(''playlists'',
          JList (map (Playlist_simple_serialize st) (user_playlists st uid)))]) 200, st))"

definition create_new_playlist :: "int \<Rightarrow> string option body \<Rightarrow> state \<Rightarrow> response \<times> state" where
  "create_new_playlist uid body st =
     (case first_by_id (get_user st) uid of
        Inl x \<Rightarrow> (Unhandled x, st)
      | Inr None \<Rightarrow> (failure_response ''User not found'' 404, st)
      | Inr (Some u) \<Rightarrow>
          (case body of
             Not_JSON \<Rightarrow> (Unhandled ValueError, st)
           | Not_object \<Rightarrow> (Unhandled AttributeError, st)
           | Object playlist_name' \<Rightarrow>
               (case playlist_name' of
                  None \<Rightarrow> (failure_response ''Please input a playlist name'' 400, st)
                | Some name \<Rightarrow>
                    let new_playlist = \<lparr>p_id = next_id (map p_id (playlists st)),
                          playlist_name = name, user_id = uid, image_id = None\<rparr>;
                        st' = st\<lparr>playlists := playlists st @ [new_playlist]\<rparr>
                    in (success_response (Playlist_simple_serialize st' new_playlist) 200,
                        st'))))"

definition get_specific_playlist :: "int \<Rightarrow> state \<Rightarrow> response \<times> state" where
  "get_specific_playlist pid st =
     (case first_by_id (get_playlist st) pid of
        Inl x \<Rightarrow> (Unhandled x, st)
      | Inr None \<Rightarrow> (failure_response ''Playlist not found'' 404, st)
      | Inr (Some p) \<Rightarrow>
          (case Playlist_serialize st p of
             Inl e \<Rightarrow> (Unhandled e, st)
           | Inr j \<Rightarrow> (success_response j 200, st)))"

text \<open>
  Deleting an image row (by \<^verbatim>\<open>db.session.delete(image)\<close>, or by the cascade
  \<^verbatim>\<open>all, delete-orphan\<close> of \<^verbatim>\<open>Playlist.image\<close>) sets the foreign key of the playlists
  that still point to it to \<^verbatim>\<open>NULL\<close>, as \<^verbatim>\<open>Img.playlist\<close> has no delete cascade.
\<close>

definition delete_image :: "int \<Rightarrow> state \<Rightarrow> state" where
  "delete_image k st = st\<lparr>
     images := filter (\<lambda>i. i_id i \<noteq> k) (images st),
     playlists := map (\<lambda>q. if image_id q = Some k then q\<lparr>image_id := None\<rparr> else q)
       (playlists st)\<rparr>"

text \<open>
  \<^verbatim>\<open>db.session.delete(playlist)\<close> deletes the playlist row, its rows of the association
  table and, by the cascade of \<^verbatim>\<open>Playlist.image\<close>, its image. No relationship leads to
  the asset table.
\<close>

definition delete_playlist :: "int \<Rightarrow> state \<Rightarrow> response \<times> state" where
  "delete_playlist pid st =
     (case first_by_id (get_playlist st) pid of
        Inl x \<Rightarrow> (Unhandled x, st)
      | Inr None \<Rightarrow> (failure_response ''Playlist not found'' 404, st)
      | Inr (Some p) \<Rightarrow>
          (case Playlist_serialize st p of
             Inl e \<Rightarrow> (Unhandled e, st)
           | Inr deleted_playlist \<Rightarrow>
               let st1 = (case playlist_image st p of
                            None \<Rightarrow> st | Some i \<Rightarrow> delete_image (i_id i) st);
                   st2 = st1\<lparr>playlists := filter (\<lambda>q. p_id q \<noteq> pid) (playlists st1),
                           assoc := filter (\<lambda>r. fst r \<noteq> pid) (assoc st1)\<rparr>
               in (success_response deleted_playlist 200, st2)))"

text \<open>
  \<^verbatim>\<open>playlist.songs.append(song)\<close> and \<^verbatim>\<open>playlist.songs.remove(song)\<close> change the list
  in memory; the rows of the association table change at \<^verbatim>\<open>db.session.commit()\<close>, where
  the ORM deletes the row of each song that left the collection and inserts a row for
  each song that it takes as added. Which songs it takes as added is decided by the
  library, not by code of the repository, and the repository names no release of it. So
  the commit has a parameter \<open>added\<close>, which gives the added songs from the list as it
  was loaded and the current list.

  \<open>history_added\<close> is the unit of work of SQLAlchemy 1.4, the release line at the time of
  the repository. It compares the current list with the loaded list by the identity of
  the objects: added are the members of the current list that the loaded list does not
  hold, deleted the members of the loaded list that the current list does not hold. So
  appending a song that the loaded list already holds adds nothing, and no row is
  inserted. \<open>appended\<close> is a unit of work that takes every song appended since the load
  as added, also one that the loaded list holds, as later releases of the library do
  (2.0.19 and after).
\<close>

definition history_added :: "int list \<Rightarrow> int list \<Rightarrow> int list" where
  "history_added original current = filter (\<lambda>s. s \<notin> set original) current"

definition history_deleted :: "int list \<Rightarrow> int list \<Rightarrow> int list" where
  "history_deleted original current = filter (\<lambda>s. s \<notin> set current) original"

definition appended :: "int list \<Rightarrow> int list \<Rightarrow> int list" where
  "appended original current = drop (length original) current"

definition commit_songs_with ::
  "(int list \<Rightarrow> int list \<Rightarrow> int list) \<Rightarrow> int \<Rightarrow> int list \<Rightarrow> int list \<Rightarrow> state \<Rightarrow> state" where
  "commit_songs_with added pid original current st = st\<lparr>assoc :=
     filter (\<lambda>r. r \<notin> set (map (Pair pid) (history_deleted original current))) (assoc st)
     @ map (Pair pid) (added original current)\<rparr>"

definition commit_songs :: "int \<Rightarrow> int list \<Rightarrow> int list \<Rightarrow> state \<Rightarrow> state" where
  "commit_songs = commit_songs_with history_added"

text \<open>
  \<^verbatim>\<open>add_song_to_playlist\<close> over a unit of work, and with the one of SQLAlchemy 1.4. The
  handler has no membership test of its own.
\<close>

definition add_song_to_playlist_with ::
  "(int list \<Rightarrow> int list \<Rightarrow> int list) \<Rightarrow> int \<Rightarrow> int \<Rightarrow> state \<Rightarrow> response \<times> state" where
  "add_song_to_playlist_with added pid sid st =
     (case first_by_id (get_playlist st) pid of
        Inl x \<Rightarrow> (Unhandled x, st)
      | Inr None \<Rightarrow> (failure_response ''Playlist not found'' 404, st)
      | Inr (Some p) \<Rightarrow>
          (case first_by_id (get_song st) sid of
             Inl x \<Rightarrow> (Unhandled x, st)
           | Inr None \<Rightarrow> (failure_response ''Song not found'' 404, st)
           | Inr (Some s) \<Rightarrow>
               let original = map s_id (playlist_songs st p);
                   current = original @ [s_id s]
               in (success_response (Song_simple_serialize s) 200,
                   commit_songs_with added (p_id p) original current st)))"

definition add_song_to_playlist :: "int \<Rightarrow> int \<Rightarrow> state \<Rightarrow> response \<times> state" where
  "add_song_to_playlist = add_song_to_playlist_with history_added"

text \<open>
  \<^verbatim>\<open>playlist.songs.index(song)\<close> raises a value error when the song is not in the list,
  which the handler catches.
\<close>

definition remove_song_from_playlist :: "int \<Rightarrow> int \<Rightarrow> state \<Rightarrow> response \<times> state" where
  "remove_song_from_playlist pid sid st =
     (case first_by_id (get_playlist st) pid of
        Inl x \<Rightarrow> (Unhandled x, st)
      | Inr None \<Rightarrow> (failure_response ''Playlist not found'' 404, st)
      | Inr (Some p) \<Rightarrow>
          (case first_by_id (get_song st) sid of
             Inl x \<Rightarrow> (Unhandled x, st)
           | Inr None \<Rightarrow> (failure_response ''Song not found'' 404, st)
           | Inr (Some s) \<Rightarrow>
               let original = map s_id (playlist_songs st p)
               in if s_id s \<notin> set original
                  then (failure_response ''Song not in playlist'' 400, st)
                  else (success_response (Song_simple_serialize s) 200,
                        commit_songs (p_id p) original (remove1 (s_id s) original) st)))"

definition get_song_from_playlist :: "int \<Rightarrow> state \<Rightarrow> response \<times> state" where
  "get_song_from_playlist sid st =
     (case first_by_id (get_song st) sid of
        Inl x \<Rightarrow> (Unhandled x, st)
      | Inr None \<Rightarrow> (failure_response ''Song not found'' 404, st)
      | Inr (Some s) \<Rightarrow> (success_response (Song_simple_serialize s) 200, st))"

text \<open>
  \<^verbatim>\<open>upload_playlist_image\<close> commits the asset, then the image. \<^verbatim>\<open>Img.__init__\<close> sets
  \<^verbatim>\<open>self.playlist\<close>, which makes the new image the playlist's image; the image the
  playlist had before is an orphan and is deleted by the same commit.
\<close>

definition commit_asset :: "asset \<Rightarrow> state \<Rightarrow> exn + (asset \<times> state)" where
  "commit_asset a st =
     (if populated a
      then let a' = a\<lparr>a_id := Some (next_id (List.map_filter a_id (assets st)))\<rparr>
           in Inr (a', st\<lparr>assets := assets st @ [a']\<rparr>)
      else Inl IntegrityError)"

definition commit_image :: "img \<Rightarrow> playlist \<Rightarrow> state \<Rightarrow> state" where
  "commit_image i p st =
     (let st1 = st\<lparr>images := images st @ [i],
            playlists := map (\<lambda>q. if p_id q = p_id p then q\<lparr>image_id := Some (i_id i)\<rparr> else q)
              (playlists st)\<rparr>
      in case playlist_image st p of None \<Rightarrow> st1 | Some old \<Rightarrow> delete_image (i_id old) st1)"

definition upload_playlist_image ::
  "env \<Rightarrow> int \<Rightarrow> string option body \<Rightarrow> state \<Rightarrow> response \<times> state" where
  "upload_playlist_image e pid body st =
     (case first_by_id (get_playlist st) pid of
        Inl x \<Rightarrow> (Unhandled x, st)
      | Inr None \<Rightarrow> (failure_response ''Playlist not found'' 404, st)
      | Inr (Some p) \<Rightarrow>
          (case body of
             Not_JSON \<Rightarrow> (Unhandled ValueError, st)
           | Not_object \<Rightarrow> (Unhandled AttributeError, st)
           | Object image_data' \<Rightarrow>
               (case image_data' of
                  None \<Rightarrow> (failure_response ''No base64 image found.'' 404, st)
                | Some image_data \<Rightarrow>
                    (case Asset e image_data st of
                       (Inl m, st1) \<Rightarrow> (Unhandled (Exception m), st1)
                     | (Inr a, st1) \<Rightarrow>
                         (case commit_asset a st1 of
                            Inl x \<Rightarrow> (Unhandled x, st1)
                          | Inr (a', st2) \<Rightarrow>
                              let new_image = \<lparr>i_id = next_id (map i_id (images st2)),
                                    i_link = asset_url a'\<rparr>;
                                  st3 = commit_image new_image p st2
                              in (case Img_serialize st3 new_image of
                                    Inl x \<Rightarrow> (Unhandled x, st3)
                                  | Inr j \<Rightarrow> (success_response j 201, st3)))))))"

text \<open>
  \<^verbatim>\<open>remove_playlist_image\<close> looks both rows up by \<^verbatim>\<open>playlist.image_id\<close>, a value read
  from the playlist's row. \<^verbatim>\<open>db.session.delete(None)\<close> raises. The response is
  \<^verbatim>\<open>image.serialize()\<close> of the object as it was loaded, with the playlist it belonged to.
\<close>

definition remove_playlist_image :: "int \<Rightarrow> state \<Rightarrow> response \<times> state" where
  "remove_playlist_image pid st =
     (case first_by_id (get_playlist st) pid of
        Inl x \<Rightarrow> (Unhandled x, st)
      | Inr None \<Rightarrow> (failure_response ''Playlist not found'' 404, st)
      | Inr (Some p) \<Rightarrow>
          (case get_img st (image_id p) of
             None \<Rightarrow>
               (failure_response ''There is no image associated with this playlist'' 404, st)
           | Some im \<Rightarrow>
               (case get_asset st (image_id p) of
                  None \<Rightarrow> (Unhandled UnmappedInstanceError, st)
                | Some a \<Rightarrow>
                    let st1 = delete_image (i_id im) st;
                        st2 = st1\<lparr>assets := filter (\<lambda>b. a_id b \<noteq> a_id a) (assets st1)\<rparr>
                    in (case Img_serialize st im of
                          Inl x \<Rightarrow> (Unhandled x, st2)
                        | Inr j \<Rightarrow> (success_response j 200, st2)))))"

section \<open>Notions of the statements\<close>

text \<open>
  The four fields that \<^verbatim>\<open>exists_serialize\<close> holds, as a tuple.
\<close>

definition song_tuple :: "song \<Rightarrow> string \<times> string \<times> int \<times> string" where
  "song_tuple s = (title s, artist s, bpm s, link s)"

text \<open>
  The first exception raised in \<^verbatim>\<open>create\<close> before the fields are assigned, in the order
  of the source (guessing the extension, the test against \<^verbatim>\<open>EXTENSIONS\<close>, decoding), and
  the exception raised in \<^verbatim>\<open>upload\<close> for a file name, if any.
\<close>

definition pipeline_failure :: "env \<Rightarrow> string \<Rightarrow> string option" where
  "pipeline_failure e d =
     (case guess_ext e d of
        Inl m \<Rightarrow> Some m
      | Inr x \<Rightarrow> if x \<notin> set EXTENSIONS then Some (''Extension '' @ x @ '' is not valid.'')
                 else (case decode e d of Inl m \<Rightarrow> Some m | Inr r \<Rightarrow> None))"

definition upload_failure :: "env \<Rightarrow> string \<Rightarrow> string option" where
  "upload_failure e f =
     (case s3 e f of Uploaded \<Rightarrow> None | Failed_before_store m \<Rightarrow> Some m
      | Failed_after_store m \<Rightarrow> Some m)"

text \<open>Two states with the same rows in every table.\<close>

definition same_tables :: "state \<Rightarrow> state \<Rightarrow> bool" where
  "same_tables st st' \<longleftrightarrow> users st' = users st \<and> playlists st' = playlists st \<and>
     songs st' = songs st \<and> images st' = images st \<and> assets st' = assets st \<and>
     assoc st' = assoc st"

section \<open>Concrete inputs\<close>

text \<open>
  Two calls of the asset pipeline on a PNG that decodes to one pixel, in a bucket named
  \<^verbatim>\<open>b\<close>: the first draws the salt of sixteen \<^verbatim>\<open>A\<close>, the second of sixteen \<^verbatim>\<open>B\<close>.
\<close>

definition env_a :: env where
  "env_a = \<lparr>bucket = Some ''b'', guess_ext = (\<lambda>d. Inr ''png''), rnd = (\<lambda>i. 0),
     decode = (\<lambda>d. Inr (1, 1)), now = ''2022-12-01 10:00:00'', s3 = (\<lambda>f. Uploaded)\<rparr>"

definition env_b :: env where
  "env_b = \<lparr>bucket = Some ''b'', guess_ext = (\<lambda>d. Inr ''png''), rnd = (\<lambda>i. 1),
     decode = (\<lambda>d. Inr (1, 1)), now = ''2022-12-01 11:00:00'', s3 = (\<lambda>f. Uploaded)\<rparr>"

text \<open>
  The first call with an image type outside \<^verbatim>\<open>EXTENSIONS\<close>, and with a bucket that
  refuses the upload. \<open>asset_A\<close> is the object the first call of the pipeline builds.
\<close>

definition env_bmp :: env where
  "env_bmp = env_a\<lparr>guess_ext := (\<lambda>d. Inr ''bmp'')\<rparr>"

definition env_fail :: env where
  "env_fail = env_a\<lparr>s3 := (\<lambda>f. Failed_before_store ''Unable to locate credentials'')\<rparr>"

definition asset_A :: asset where
  "asset_A = \<lparr>a_id = None, base_url = Some ''https://b.s3.us-east-1.amazonaws.com'',
     salt = Some ''AAAAAAAAAAAAAAAA'', extension = Some ''png'', width = Some 1,
     height = Some 1, created_at = Some ''2022-12-01 10:00:00''\<rparr>"

text \<open>
  A user with one playlist and one stored song, and the same state after the song was
  added to the playlist.
\<close>

definition st_song :: state where
  "st_song = snd (add_song_to_database
     (Object (Some ''A'', Some ''B'', Some 120, Some ''http://x''))
     (snd (create_new_playlist 1 (Object (Some ''mix''))
       (snd (create_new_user (Object (Some ''alice'')) empty_state)))))"

definition st_member :: state where
  "st_member = snd (add_song_to_playlist 1 1 st_song)"

text \<open>
  A run of requests from the empty database: a user and two playlists (\<open>st_two\<close>); an
  image uploaded to playlist 1 (\<open>st_image\<close>); playlist 1 deleted and an image uploaded to
  playlist 2 (\<open>st_reuse\<close>).
\<close>

definition st_two :: state where
  "st_two = snd (create_new_playlist 1 (Object (Some ''gym''))
     (snd (create_new_playlist 1 (Object (Some ''mix''))
       (snd (create_new_user (Object (Some ''alice'')) empty_state)))))"

definition st_image :: state where
  "st_image = snd (upload_playlist_image env_a 1 (Object (Some ''x'')) st_two)"

definition st_reuse :: state where
  "st_reuse = snd (upload_playlist_image env_b 2 (Object (Some ''x''))
     (snd (delete_playlist 1 st_image)))"


section \<open>Lookups by id\<close>

lemma first_by_id_Some:
  "first_by_id row k = Inr (Some x) \<longleftrightarrow> sqlite_int k \<and> row k = Some x"
  by (simp add: first_by_id_def)

lemma first_by_id_None:
  "first_by_id row k = Inr None \<longleftrightarrow> sqlite_int k \<and> row k = None"
  by (simp add: first_by_id_def)

lemma first_by_id_raises:
  "first_by_id row k = Inl x \<longleftrightarrow> \<not> sqlite_int k \<and> x = OverflowError"
  by (auto simp: first_by_id_def)

section \<open>Tempo search\<close>

lemma filter_loop_int:
  "filter_loop (JInt lo) (JInt hi) ss acc =
     Inr (acc @ map Song_simple_serialize (filter (\<lambda>s. lo \<le> bpm s \<and> bpm s \<le> hi) ss))"
  by (induction ss arbitrary: acc) (auto simp: in_range_def)

text \<open>
  C3. With integer bounds \<open>lo\<close> and \<open>hi\<close>, the tempo search answers with the stored songs
  whose bpm lies in the closed interval from \<open>lo\<close> to \<open>hi\<close>, in table order, with status
  200; when there is none it answers with the failure envelope and status 400. The state
  is unchanged.
\<close>

theorem tempo_search_inclusive:
  "get_songs_bpm (Object (JInt lo, JInt hi)) st =
     (if filter (\<lambda>s. lo \<le> bpm s \<and> bpm s \<le> hi) (songs st) = []
      then (failure_response ''No songs in this range were found'' 400, st)
      else (success_response (JList (map Song_simple_serialize
              (filter (\<lambda>s. lo \<le> bpm s \<and> bpm s \<le> hi) (songs st)))) 200, st))"
  by (simp add: get_songs_bpm_def filter_loop_int)

section \<open>Song uniqueness\<close>

lemma exists_serialize_mem:
  "Song_exists_serialize \<lparr>s_id = k, title = t, artist = a, bpm = b, link = l\<rparr>
     \<in> set (map Song_exists_serialize ss) \<longleftrightarrow> (t, a, b, l) \<in> set (map song_tuple ss)"
  by (auto simp: Song_exists_serialize_def song_tuple_def image_iff)

lemma add_song_eq:
  "add_song_to_database (Object (Some t, Some a, Some b, Some l)) st =
     (if (t, a, b, l) \<in> set (map song_tuple (songs st))
      then (failure_response ''Song already exists'' 401, st)
      else if sqlite_int b
      then (success_response (Song_simple_serialize
              \<lparr>s_id = next_id (map s_id (songs st)), title = t, artist = a, bpm = b, link = l\<rparr>) 201,
            st\<lparr>songs := songs st @
              [\<lparr>s_id = next_id (map s_id (songs st)), title = t, artist = a, bpm = b, link = l\<rparr>]\<rparr>)
      else (Unhandled OverflowError, st))"
  unfolding add_song_to_database_def Let_def exists_serialize_mem by simp




section \<open>Order of the checks\<close>

text \<open>
  C10 as stated fails for an id outside the integers of SQLite: no user and no playlist
  has the id \<open>2\<^sup>6\<^sup>3\<close>, the required field of the body is missing, and the handlers
  answer neither with status 404 nor with status 400; the lookup raises.
\<close>

theorem missing_entity_overflow_counterexample:
  "get_user st_two 9223372036854775808 = None \<and>
   create_new_playlist 9223372036854775808 (Object None) st_two =
     (Unhandled OverflowError, st_two) \<and>
   get_playlist st_two 9223372036854775808 = None \<and>
   upload_playlist_image env_a 9223372036854775808 (Object None) st_two =
     (Unhandled OverflowError, st_two)"
  by code_simp

text \<open>
  C10, amended. \<^verbatim>\<open>create_new_playlist\<close> and \<^verbatim>\<open>upload_playlist_image\<close> look the user or
  the playlist of the path up before they read the body. When the lookup finds no row
  (the id is an integer of SQLite and no row has it), the answer is the failure envelope
  with status 404 and the state is unchanged, whatever the body is: with the required
  field, without it, and also when the body is no JSON object at all. When the lookup
  raises, it does so whatever the body is.
\<close>

theorem entity_checked_before_body:
  "(first_by_id (get_user st) uid = Inr None \<longrightarrow>
      create_new_playlist uid body st = (failure_response ''User not found'' 404, st)) \<and>
   (first_by_id (get_playlist st) pid = Inr None \<longrightarrow>
      upload_playlist_image e pid body' st =
        (failure_response ''Playlist not found'' 404, st)) \<and>
   (first_by_id (get_user st) uid = Inl x \<longrightarrow>
      create_new_playlist uid body st = (Unhandled x, st)) \<and>
   (first_by_id (get_playlist st) pid = Inl x' \<longrightarrow>
      upload_playlist_image e pid body' st = (Unhandled x', st))"
  by (simp add: create_new_playlist_def upload_playlist_image_def)

theorem entity_checked_before_body_witness:
  "first_by_id (get_user st_two) 2 = Inr None \<and>
   create_new_playlist 2 (Object None) st_two =
     (failure_response ''User not found'' 404, st_two) \<and>
   first_by_id (get_playlist st_two) 3 = Inr None \<and>
   upload_playlist_image env_a 3 Not_JSON st_two =
     (failure_response ''Playlist not found'' 404, st_two) \<and>
   first_by_id (get_user st_two) 9223372036854775808 = Inl OverflowError \<and>
   create_new_playlist 9223372036854775808 Not_object st_two =
     (Unhandled OverflowError, st_two) \<and>
   first_by_id (get_playlist st_two) 9223372036854775808 = Inl OverflowError \<and>
   upload_playlist_image env_a 9223372036854775808 (Object (Some ''x'')) st_two =
     (Unhandled OverflowError, st_two)"
proof -
  have u: "first_by_id (get_user st_two) 2 = Inr None"
    and p: "first_by_id (get_playlist st_two) 3 = Inr None"
    and u': "first_by_id (get_user st_two) 9223372036854775808 = Inl OverflowError"
    and p': "first_by_id (get_playlist st_two) 9223372036854775808 = Inl OverflowError"
    by code_simp+
  from entity_checked_before_body [of st_two 2 "Object None" 3 env_a Not_JSON] u p
  have 1: "create_new_playlist 2 (Object None) st_two =
      (failure_response ''User not found'' 404, st_two)"
    "upload_playlist_image env_a 3 Not_JSON st_two =
      (failure_response ''Playlist not found'' 404, st_two)"
    by simp_all
  from entity_checked_before_body [of st_two 9223372036854775808 Not_object
      9223372036854775808 env_a "Object (Some ''x'')" OverflowError OverflowError] u' p'
  have 2: "create_new_playlist 9223372036854775808 Not_object st_two =
      (Unhandled OverflowError, st_two)"
    "upload_playlist_image env_a 9223372036854775808 (Object (Some ''x'')) st_two =
      (Unhandled OverflowError, st_two)"
    by simp_all
  from u p u' p' 1 2 show ?thesis by simp
qed

section \<open>The association table\<close>

lemma get_playlist_id: "get_playlist st pid = Some p \<Longrightarrow> p_id p = pid"
  by (auto simp: get_playlist_def find_Some_iff)

lemma get_song_id: "get_song st sid = Some s \<Longrightarrow> s_id s = sid"
  by (auto simp: get_song_def find_Some_iff)

lemma loaded_ids:
  "map s_id (List.map_filter (get_song st) ids) = filter (\<lambda>x. get_song st x \<noteq> None) ids"
  by (induction ids) (auto simp: List.map_filter_simps get_song_id split: option.splits)

lemma original_ids:
  "map s_id (playlist_songs st p) =
     filter (\<lambda>x. get_song st x \<noteq> None) (playlist_song_ids st (p_id p))"
  by (simp add: playlist_songs_def loaded_ids)

lemma member_loaded:
  "get_song st sid = Some s \<Longrightarrow>
     sid \<in> set (map s_id (playlist_songs st p)) \<longleftrightarrow> (p_id p, sid) \<in> set (assoc st)"
  unfolding original_ids by (force simp: playlist_song_ids_def)

lemma commit_with_append:
  "commit_songs_with added pid original (original @ [x]) st =
     st\<lparr>assoc := assoc st @ map (Pair pid) (added original (original @ [x]))\<rparr>"
proof -
  have d: "history_deleted original (original @ [x]) = []"
    by (simp add: history_deleted_def)
  show ?thesis unfolding commit_songs_with_def d by simp
qed

lemma commit_append:
  "commit_songs pid original (original @ [x]) st =
     st\<lparr>assoc := assoc st @ (if x \<in> set original then [] else [(pid, x)])\<rparr>"
proof -
  have a: "history_added original (original @ [x]) = (if x \<in> set original then [] else [x])"
    by (simp add: history_added_def)
  show ?thesis unfolding commit_songs_def commit_with_append a by simp
qed

lemma add_song_to_playlist_with_eq:
  assumes "first_by_id (get_playlist st) pid = Inr (Some p)"
    and "first_by_id (get_song st) sid = Inr (Some s)"
  shows "add_song_to_playlist_with added pid sid st =
     (success_response (Song_simple_serialize s) 200,
      st\<lparr>assoc := assoc st @ map (Pair pid)
        (added (map s_id (playlist_songs st p)) (map s_id (playlist_songs st p) @ [sid]))\<rparr>)"
proof -
  have p: "p_id p = pid" and s: "s_id s = sid"
    using assms by (auto simp: first_by_id_Some get_playlist_id get_song_id)
  show ?thesis
    unfolding add_song_to_playlist_with_def Let_def using assms
    by (simp add: commit_with_append p s)
qed

lemma add_song_to_playlist_eq:
  assumes "first_by_id (get_playlist st) pid = Inr (Some p)"
    and "first_by_id (get_song st) sid = Inr (Some s)"
  shows "add_song_to_playlist pid sid st =
     (success_response (Song_simple_serialize s) 200,
      st\<lparr>assoc := assoc st @ (if (pid, sid) \<in> set (assoc st) then [] else [(pid, sid)])\<rparr>)"
proof -
  have p: "p_id p = pid" and gs: "get_song st sid = Some s"
    using assms by (auto simp: first_by_id_Some get_playlist_id)
  have m: "sid \<in> set (map s_id (playlist_songs st p)) \<longleftrightarrow> (pid, sid) \<in> set (assoc st)"
    using member_loaded [OF gs, of p] p by simp
  have a: "history_added (map s_id (playlist_songs st p)) (map s_id (playlist_songs st p) @ [sid])
      = (if (pid, sid) \<in> set (assoc st) then [] else [sid])"
    using m by (simp add: history_added_def del: set_map)
  show ?thesis
    unfolding add_song_to_playlist_def add_song_to_playlist_with_eq [OF assms] a by simp
qed

lemma add_song_to_playlist_not_found:
  assumes "\<nexists>p s. first_by_id (get_playlist st) pid = Inr (Some p) \<and>
    first_by_id (get_song st) sid = Inr (Some s)"
  shows "snd (add_song_to_playlist pid sid st) = st"
  using assms
  by (auto simp: add_song_to_playlist_def add_song_to_playlist_with_def
      split: sum.splits option.splits)

lemma add_member_unchanged:
  assumes "(pid, sid) \<in> set (assoc st)"
  shows "snd (add_song_to_playlist pid sid st) = st"
proof (cases "\<exists>p s. first_by_id (get_playlist st) pid = Inr (Some p) \<and>
    first_by_id (get_song st) sid = Inr (Some s)")
  case False
  then show ?thesis by (rule add_song_to_playlist_not_found)
next
  case True
  then obtain p s where "first_by_id (get_playlist st) pid = Inr (Some p)"
    "first_by_id (get_song st) sid = Inr (Some s)" by blast
  then show ?thesis using assms by (simp add: add_song_to_playlist_eq)
qed

lemma add_keeps_distinct:
  assumes "distinct (assoc st)"
  shows "distinct (assoc (snd (add_song_to_playlist pid sid st)))"
proof (cases "\<exists>p s. first_by_id (get_playlist st) pid = Inr (Some p) \<and>
    first_by_id (get_song st) sid = Inr (Some s)")
  case False
  then show ?thesis using assms by (simp add: add_song_to_playlist_not_found)
next
  case True
  then obtain p s where "first_by_id (get_playlist st) pid = Inr (Some p)"
    "first_by_id (get_song st) sid = Inr (Some s)" by blast
  then show ?thesis using assms by (simp add: add_song_to_playlist_eq)
qed

lemma remove_not_member:
  assumes "first_by_id (get_playlist st) pid = Inr (Some p)"
    and "first_by_id (get_song st) sid = Inr (Some s)" and "(pid, sid) \<notin> set (assoc st)"
  shows "remove_song_from_playlist pid sid st = (failure_response ''Song not in playlist'' 400, st)"
proof -
  have p: "p_id p = pid" and s: "s_id s = sid" and gs: "get_song st sid = Some s"
    using assms by (auto simp: first_by_id_Some get_playlist_id get_song_id)
  have m: "sid \<notin> set (map s_id (playlist_songs st p))"
    using member_loaded [OF gs, of p] p assms(3) by simp
  show ?thesis
    unfolding remove_song_from_playlist_def Let_def using assms m
    by (simp add: s del: set_map)
qed

lemma commit_remove_last:
  assumes "x \<notin> set original"
  shows "commit_songs pid (original @ [x]) (remove1 x (original @ [x])) st =
     st\<lparr>assoc := filter (\<lambda>r. r \<noteq> (pid, x)) (assoc st)\<rparr>"
proof -
  have r: "remove1 x (original @ [x]) = original"
    using assms by (simp add: remove1_append)
  have d: "history_deleted (original @ [x]) original = [x]"
    using assms by (simp add: history_deleted_def)
  have a: "history_added (original @ [x]) original = []"
    by (simp add: history_added_def)
  show ?thesis unfolding r commit_songs_def commit_songs_with_def d a by simp
qed

lemma add_then_remove:
  assumes "first_by_id (get_playlist st) pid = Inr (Some p)"
    and "first_by_id (get_song st) sid = Inr (Some s)" and "(pid, sid) \<notin> set (assoc st)"
  shows "remove_song_from_playlist pid sid (snd (add_song_to_playlist pid sid st)) =
     (success_response (Song_simple_serialize s) 200, st)"
proof -
  define st1 where "st1 = st\<lparr>assoc := assoc st @ [(pid, sid)]\<rparr>"
  have st1: "snd (add_song_to_playlist pid sid st) = st1"
    using assms by (simp add: add_song_to_playlist_eq st1_def)
  have gp0: "get_playlist st pid = Some p" and gs0: "get_song st sid = Some s"
    and rp: "sqlite_int pid" and rs: "sqlite_int sid"
    using assms by (simp_all add: first_by_id_Some)
  have p: "p_id p = pid" and s: "s_id s = sid"
    using gp0 gs0 by (simp_all add: get_playlist_id get_song_id)
  have gp: "get_playlist st1 pid = Some p" and gs: "get_song st1 = get_song st"
    using gp0 by (simp_all add: st1_def get_playlist_def get_song_def fun_eq_iff)
  have m: "sid \<notin> set (map s_id (playlist_songs st p))"
    using member_loaded [OF gs0, of p] p assms(3) by simp
  have o: "map s_id (playlist_songs st1 p) = map s_id (playlist_songs st p) @ [sid]"
    unfolding original_ids gs using gs0
    by (simp add: playlist_song_ids_def st1_def p)
  have f: "filter (\<lambda>r. r \<noteq> (pid, sid)) (assoc st1) = assoc st"
    using assms(3) by (auto simp: st1_def filter_id_conv)
  have "remove_song_from_playlist pid sid st1 =
      (success_response (Song_simple_serialize s) 200,
       st1\<lparr>assoc := filter (\<lambda>r. r \<noteq> (pid, sid)) (assoc st1)\<rparr>)"
    using gs0 m rp rs
    by (simp add: remove_song_from_playlist_def first_by_id_def Let_def gp gs o s p
        commit_remove_last del: set_map)
  then show ?thesis unfolding st1 f by (simp add: st1_def)
qed

text \<open>
  C5 as stated fails: the handler appends and commits without a membership test, and
  with a unit of work that takes every appended song as added, adding song 1 to
  playlist 1, of which it is a member, makes a second pair \<open>(1, 1)\<close>.
\<close>

theorem add_member_second_pair_counterexample:
  "assoc st_member = [(1, 1)] \<and>
   first_by_id (get_playlist st_member) 1 \<noteq> Inr None \<and>
   first_by_id (get_song st_member) 1 \<noteq> Inr None \<and>
   assoc (snd (add_song_to_playlist_with appended 1 1 st_member)) = [(1, 1), (1, 1)]"
  by code_simp

text \<open>
  C5, amended. The association table has no key and \<^verbatim>\<open>add_song_to_playlist\<close> tests no
  membership: for a playlist and a song that the lookups find it answers with the song
  and status 200, for a member as for any other song, and appends to the table the pairs
  of the songs that the unit of work takes as added. With the unit of work of
  SQLAlchemy 1.4 a call for a pair that the table holds leaves the state as it is, so no
  second pair is made, and rows that are pairwise different stay so. With a unit of work
  that takes every appended song as added, every call appends its pair.
\<close>

theorem add_song_no_membership_test:
  "(first_by_id (get_playlist st) pid = Inr (Some p) \<and>
    first_by_id (get_song st) sid = Inr (Some s) \<longrightarrow>
      add_song_to_playlist_with added pid sid st =
        (success_response (Song_simple_serialize s) 200,
         st\<lparr>assoc := assoc st @ map (Pair pid)
           (added (map s_id (playlist_songs st p)) (map s_id (playlist_songs st p) @ [sid]))\<rparr>) \<and>
      assoc (snd (add_song_to_playlist_with appended pid sid st)) = assoc st @ [(pid, sid)]) \<and>
   ((pid, sid) \<in> set (assoc st) \<longrightarrow> snd (add_song_to_playlist pid sid st) = st) \<and>
   (distinct (assoc st) \<longrightarrow> distinct (assoc (snd (add_song_to_playlist pid sid st))))"
proof (intro conjI impI)
  assume h: "first_by_id (get_playlist st) pid = Inr (Some p) \<and>
    first_by_id (get_song st) sid = Inr (Some s)"
  then have p: "first_by_id (get_playlist st) pid = Inr (Some p)"
    and s: "first_by_id (get_song st) sid = Inr (Some s)"
    by simp_all
  show "add_song_to_playlist_with added pid sid st =
        (success_response (Song_simple_serialize s) 200,
         st\<lparr>assoc := assoc st @ map (Pair pid)
           (added (map s_id (playlist_songs st p)) (map s_id (playlist_songs st p) @ [sid]))\<rparr>)"
    by (rule add_song_to_playlist_with_eq [OF p s])
  show "assoc (snd (add_song_to_playlist_with appended pid sid st)) = assoc st @ [(pid, sid)]"
    by (simp add: add_song_to_playlist_with_eq [OF p s] appended_def)
next
  assume "(pid, sid) \<in> set (assoc st)"
  then show "snd (add_song_to_playlist pid sid st) = st" by (rule add_member_unchanged)
next
  assume "distinct (assoc st)"
  then show "distinct (assoc (snd (add_song_to_playlist pid sid st)))"
    by (rule add_keeps_distinct)
qed

theorem add_song_no_membership_test_witness:
  "first_by_id (get_playlist st_member) 1 =
     Inr (Some \<lparr>p_id = 1, playlist_name = ''mix'', user_id = 1, image_id = None\<rparr>) \<and>
   first_by_id (get_song st_member) 1 =
     Inr (Some \<lparr>s_id = 1, title = ''A'', artist = ''B'', bpm = 120, link = ''http://x''\<rparr>) \<and>
   (1, 1) \<in> set (assoc st_member) \<and> distinct (assoc st_member) \<and>
   fst (add_song_to_playlist_with history_added 1 1 st_member) =
     success_response (Song_simple_serialize
       \<lparr>s_id = 1, title = ''A'', artist = ''B'', bpm = 120, link = ''http://x''\<rparr>) 200 \<and>
   assoc (snd (add_song_to_playlist_with appended 1 1 st_member)) =
     assoc st_member @ [(1, 1)] \<and>
   snd (add_song_to_playlist 1 1 st_member) = st_member \<and>
   distinct (assoc (snd (add_song_to_playlist 1 1 st_member)))"
proof -
  have p: "first_by_id (get_playlist st_member) 1 =
     Inr (Some \<lparr>p_id = 1, playlist_name = ''mix'', user_id = 1, image_id = None\<rparr>)"
    by code_simp
  have s: "first_by_id (get_song st_member) 1 =
     Inr (Some \<lparr>s_id = 1, title = ''A'', artist = ''B'', bpm = 120, link = ''http://x''\<rparr>)"
    by code_simp
  have m: "(1, 1) \<in> set (assoc st_member)" by code_simp
  have d: "distinct (assoc st_member)" by code_simp
  from add_song_no_membership_test [of st_member 1
      "\<lparr>p_id = 1, playlist_name = ''mix'', user_id = 1, image_id = None\<rparr>" 1
      "\<lparr>s_id = 1, title = ''A'', artist = ''B'', bpm = 120, link = ''http://x''\<rparr>"
      history_added] p s m d
  show ?thesis by simp
qed

text \<open>
  C6 as stated fails for a song that is already a member of the playlist: adding it
  changes nothing, removing it then deletes the row, and the playlist that held the song
  before holds no song afterwards.
\<close>

theorem add_remove_member_counterexample:
  "get_playlist st_member 1 \<noteq> None \<and> get_song st_member 1 \<noteq> None \<and>
   playlist_song_ids st_member 1 = [1] \<and>
   playlist_song_ids
     (snd (remove_song_from_playlist 1 1 (snd (add_song_to_playlist 1 1 st_member)))) 1 = []"
  by code_simp

text \<open>
  C6, amended. For an existing playlist and an existing song that is not a member of
  it, \<^verbatim>\<open>add_song_to_playlist\<close> followed by \<^verbatim>\<open>remove_song_from_playlist\<close> on the same
  pair answers twice with the song and status 200 and gives back the state from before,
  and so the playlist's song list; and \<^verbatim>\<open>remove_song_from_playlist\<close> alone answers with
  the failure envelope and status 400 and leaves the state as it is.
\<close>

theorem add_then_remove_roundtrip:
  "first_by_id (get_playlist st) pid = Inr (Some p) \<and>
   first_by_id (get_song st) sid = Inr (Some s) \<and> (pid, sid) \<notin> set (assoc st) \<longrightarrow>
     fst (add_song_to_playlist pid sid st) = success_response (Song_simple_serialize s) 200 \<and>
     remove_song_from_playlist pid sid (snd (add_song_to_playlist pid sid st)) =
       (success_response (Song_simple_serialize s) 200, st) \<and>
     remove_song_from_playlist pid sid st = (failure_response ''Song not in playlist'' 400, st)"
proof (intro impI, elim conjE)
  assume p: "first_by_id (get_playlist st) pid = Inr (Some p)"
    and s: "first_by_id (get_song st) sid = Inr (Some s)"
    and m: "(pid, sid) \<notin> set (assoc st)"
  have "fst (add_song_to_playlist pid sid st) = success_response (Song_simple_serialize s) 200"
    by (simp add: add_song_to_playlist_eq [OF p s])
  moreover note add_then_remove [OF p s m] remove_not_member [OF p s m]
  ultimately show "fst (add_song_to_playlist pid sid st) =
      success_response (Song_simple_serialize s) 200 \<and>
    remove_song_from_playlist pid sid (snd (add_song_to_playlist pid sid st)) =
      (success_response (Song_simple_serialize s) 200, st) \<and>
    remove_song_from_playlist pid sid st = (failure_response ''Song not in playlist'' 400, st)"
    by blast
qed

theorem add_then_remove_roundtrip_witness:
  "first_by_id (get_playlist st_song) 1 =
     Inr (Some \<lparr>p_id = 1, playlist_name = ''mix'', user_id = 1, image_id = None\<rparr>) \<and>
   first_by_id (get_song st_song) 1 =
     Inr (Some \<lparr>s_id = 1, title = ''A'', artist = ''B'', bpm = 120, link = ''http://x''\<rparr>) \<and>
   (1, 1) \<notin> set (assoc st_song) \<and>
   remove_song_from_playlist 1 1 (snd (add_song_to_playlist 1 1 st_song)) =
     (success_response (Song_simple_serialize
        \<lparr>s_id = 1, title = ''A'', artist = ''B'', bpm = 120, link = ''http://x''\<rparr>) 200, st_song) \<and>
   remove_song_from_playlist 1 1 st_song = (failure_response ''Song not in playlist'' 400, st_song)"
proof -
  have p: "first_by_id (get_playlist st_song) 1 =
      Inr (Some \<lparr>p_id = 1, playlist_name = ''mix'', user_id = 1, image_id = None\<rparr>)"
    by code_simp
  have s: "first_by_id (get_song st_song) 1 =
      Inr (Some \<lparr>s_id = 1, title = ''A'', artist = ''B'', bpm = 120, link = ''http://x''\<rparr>)"
    by code_simp
  have m: "(1, 1) \<notin> set (assoc st_song)" by code_simp
  from add_then_remove_roundtrip [of st_song 1 _ 1 _] p s m show ?thesis by simp
qed

section \<open>The asset pipeline: salt, extension, URL and failures\<close>

lemma make_salt_length: "length (make_salt e) = 16"
  by (simp add: make_salt_def)

lemma make_salt_chars: "set (make_salt e) \<subseteq> set salt_alphabet"
proof -
  have "length salt_alphabet = 36" by (simp add: salt_alphabet_def)
  then have "choice salt_alphabet r \<in> set salt_alphabet" for r
    unfolding choice_def by (intro nth_mem) simp
  then show ?thesis unfolding make_salt_def by auto
qed

lemma upload_returns: "\<exists>st'. upload e f st = (Inr (), st')"
  by (simp add: upload_def upload_try_def split: upload_outcome.splits)

lemma upload_tables: "same_tables st (snd (upload e f st))"
  by (simp add: upload_def upload_try_def same_tables_def split: upload_outcome.splits)

lemma upload_stdout:
  "stdout (snd (upload e f st)) =
     stdout st @ (case upload_failure e f of None \<Rightarrow> []
                  | Some m \<Rightarrow> [''Error when uploading image: '' @ m])"
  by (simp add: upload_def upload_try_def upload_failure_def split: upload_outcome.splits)

lemma Asset_failure:
  "pipeline_failure e d = Some m \<Longrightarrow>
     Asset e d st =
       (Inr blank_asset, st\<lparr>stdout := stdout st @ [''Error when creating image: '' @ m]\<rparr>)"
  by (auto simp: Asset_def create_def create_try_def pipeline_failure_def Let_def
      split: sum.splits if_splits prod.splits)

lemma Asset_success:
  assumes "pipeline_failure e d = None"
  shows "\<exists>x w h. guess_ext e d = Inr x \<and> x \<in> set EXTENSIONS \<and> decode e d = Inr (w, h) \<and>
     Asset e d st = (Inr \<lparr>a_id = None, base_url = Some (S3_BASE_URL e),
        salt = Some (make_salt e), extension = Some x, width = Some w, height = Some h,
        created_at = Some (now e)\<rparr>, snd (upload e (make_salt e @ ''.'' @ x) st))"
proof -
  from assms obtain x w h where g: "guess_ext e d = Inr x" and x: "x \<in> set EXTENSIONS"
    and dd: "decode e d = Inr (w, h)"
    by (auto simp: pipeline_failure_def split: sum.splits if_splits)
  obtain st' where u: "upload e (make_salt e @ ''.'' @ x) st = (Inr (), st')"
    using upload_returns by blast
  show ?thesis using g x dd u
    by (simp add: Asset_def create_def create_try_def Let_def blank_asset_def fmt_def)
qed

lemma blank_unpopulated: "unpopulated blank_asset \<and> \<not> populated blank_asset"
  by (simp add: unpopulated_def populated_def blank_asset_def)

text \<open>
  C8. An asset that the constructor returns with its fields set (the only ones the
  commit accepts) has a salt of 16 characters, all of them among the upper-case letters
  and the digits, an extension in \<^verbatim>\<open>EXTENSIONS\<close>, and \<^verbatim>\<open>serialize\<close> gives the URL
  \<^verbatim>\<open>base_url/salt.extension\<close>. When the guessed extension is not in \<^verbatim>\<open>EXTENSIONS\<close> the
  object comes back with no field set, and the tables and the bucket are as before.
\<close>

theorem asset_salt_extension_url:
  "(Asset e d st = (Inr a, st') \<and> populated a \<longrightarrow>
      (\<exists>b s x c. base_url a = Some b \<and> salt a = Some s \<and> extension a = Some x \<and>
         length s = 16 \<and> set s \<subseteq> set salt_alphabet \<and> x \<in> set EXTENSIONS \<and>
         asset_url a = b @ ''/'' @ s @ ''.'' @ x \<and>
         Asset_serialize a =
           JObj [(''url'', JStr (b @ ''/'' @ s @ ''.'' @ x)), (''created_at'', JStr c)])) \<and>
   (guess_ext e d = Inr y \<and> y \<notin> set EXTENSIONS \<longrightarrow>
      fst (Asset e d st) = Inr blank_asset \<and> unpopulated blank_asset \<and>
      same_tables st (snd (Asset e d st)) \<and> remote (snd (Asset e d st)) = remote st)"
proof (intro conjI impI)
  assume h: "Asset e d st = (Inr a, st') \<and> populated a"
  show "\<exists>b s x c. base_url a = Some b \<and> salt a = Some s \<and> extension a = Some x \<and>
         length s = 16 \<and> set s \<subseteq> set salt_alphabet \<and> x \<in> set EXTENSIONS \<and>
         asset_url a = b @ ''/'' @ s @ ''.'' @ x \<and>
         Asset_serialize a =
           JObj [(''url'', JStr (b @ ''/'' @ s @ ''.'' @ x)), (''created_at'', JStr c)]"
  proof (cases "pipeline_failure e d")
    case (Some m)
    with h have "populated blank_asset" by (auto simp: Asset_failure [OF Some])
    then show ?thesis by (simp add: blank_unpopulated)
  next
    case None
    from Asset_success [OF None, of st] h obtain x w h' where x: "x \<in> set EXTENSIONS"
      and a: "a = \<lparr>a_id = None, base_url = Some (S3_BASE_URL e),
        salt = Some (make_salt e), extension = Some x, width = Some w, height = Some h',
        created_at = Some (now e)\<rparr>"
      by auto
    show ?thesis
      using x make_salt_length [of e] make_salt_chars [of e]
      by (simp add: a asset_url_def Asset_serialize_def fmt_def)
  qed
next
  assume h: "guess_ext e d = Inr y \<and> y \<notin> set EXTENSIONS"
  then have f: "pipeline_failure e d = Some (''Extension '' @ y @ '' is not valid.'')"
    by (simp add: pipeline_failure_def)
  show "fst (Asset e d st) = Inr blank_asset" "unpopulated blank_asset"
    "same_tables st (snd (Asset e d st))" "remote (snd (Asset e d st)) = remote st"
    by (simp_all add: Asset_failure [OF f] blank_unpopulated same_tables_def)
qed

theorem asset_salt_extension_url_witness:
  "Asset env_a ''x'' empty_state =
     (Inr asset_A, empty_state\<lparr>remote := [''AAAAAAAAAAAAAAAA.png'']\<rparr>) \<and>
   populated asset_A \<and> salt asset_A = Some ''AAAAAAAAAAAAAAAA'' \<and>
   extension asset_A = Some ''png'' \<and>
   asset_url asset_A = ''https://b.s3.us-east-1.amazonaws.com/AAAAAAAAAAAAAAAA.png'' \<and>
   guess_ext env_bmp ''x'' = Inr ''bmp'' \<and> ''bmp'' \<notin> set EXTENSIONS \<and>
   fst (Asset env_bmp ''x'' empty_state) = Inr blank_asset"
proof -
  have r: "Asset env_a ''x'' empty_state =
     (Inr asset_A, empty_state\<lparr>remote := [''AAAAAAAAAAAAAAAA.png'']\<rparr>)"
    by code_simp
  have p: "populated asset_A" by code_simp
  have g: "guess_ext env_bmp ''x'' = Inr ''bmp''" and n: "''bmp'' \<notin> set EXTENSIONS"
    by code_simp+
  have s: "salt asset_A = Some ''AAAAAAAAAAAAAAAA''" "extension asset_A = Some ''png''"
    "base_url asset_A = Some ''https://b.s3.us-east-1.amazonaws.com''"
    by (simp_all add: asset_A_def)
  from asset_salt_extension_url [of env_a "''x''" empty_state asset_A _ "''bmp''"] r p s
  have u: "asset_url asset_A = ''https://b.s3.us-east-1.amazonaws.com/AAAAAAAAAAAAAAAA.png''"
    by auto
  from asset_salt_extension_url [of env_bmp "''x''" empty_state _ _ "''bmp''"] g n
  have b: "fst (Asset env_bmp ''x'' empty_state) = Inr blank_asset" by blast
  from r p s u g n b show ?thesis by simp
qed

text \<open>
  C9 as stated fails for an upload failure: the exception is caught in \<^verbatim>\<open>upload\<close>, after
  \<^verbatim>\<open>create\<close> has assigned every field, so the object comes back fully populated.
\<close>

theorem upload_failure_populated_counterexample:
  "upload_failure env_fail ''AAAAAAAAAAAAAAAA.png'' = Some ''Unable to locate credentials'' \<and>
   Asset env_fail ''x'' empty_state =
     (Inr asset_A, empty_state\<lparr>stdout :=
        [''Error when uploading image: Unable to locate credentials'']\<rparr>) \<and>
   populated asset_A"
  by code_simp

text \<open>
  C9, amended. The constructor always returns an object and never raises, with the
  tables as before. A failure before the upload (no extension guessed, an extension
  outside \<^verbatim>\<open>EXTENSIONS\<close>, a decoding error) is printed and leaves all six fields unset;
  a failure of the upload is printed and leaves all six fields set.
\<close>

theorem asset_failures_caught:
  "(\<exists>a st'. Asset e d st = (Inr a, st') \<and> same_tables st st') \<and>
   (pipeline_failure e d = Some m \<longrightarrow>
      Asset e d st =
        (Inr blank_asset, st\<lparr>stdout := stdout st @ [''Error when creating image: '' @ m]\<rparr>) \<and>
      unpopulated blank_asset) \<and>
   (pipeline_failure e d = None \<and> guess_ext e d = Inr x \<and>
    upload_failure e (make_salt e @ ''.'' @ x) = Some m' \<longrightarrow>
      (\<exists>a st'. Asset e d st = (Inr a, st') \<and> populated a \<and>
         stdout st' = stdout st @ [''Error when uploading image: '' @ m']))"
proof -
  have returns: "\<exists>a st'. Asset e d st = (Inr a, st') \<and> same_tables st st'"
  proof (cases "pipeline_failure e d")
    case (Some k)
    show ?thesis by (simp add: Asset_failure [OF Some] same_tables_def)
  next
    case None
    from Asset_success [OF None, of st] show ?thesis
      using upload_tables by auto
  qed
  have early: "Asset e d st =
        (Inr blank_asset, st\<lparr>stdout := stdout st @ [''Error when creating image: '' @ m]\<rparr>) \<and>
      unpopulated blank_asset" if "pipeline_failure e d = Some m"
    using that by (simp add: Asset_failure blank_unpopulated)
  have late: "\<exists>a st'. Asset e d st = (Inr a, st') \<and> populated a \<and>
         stdout st' = stdout st @ [''Error when uploading image: '' @ m']"
    if h: "pipeline_failure e d = None \<and> guess_ext e d = Inr x \<and>
      upload_failure e (make_salt e @ ''.'' @ x) = Some m'"
    using Asset_success [of e d st] h by (auto simp: populated_def upload_stdout)
  from returns early late show ?thesis by blast
qed

theorem asset_failures_caught_witness:
  "pipeline_failure env_bmp ''x'' = Some ''Extension bmp is not valid.'' \<and>
   Asset env_bmp ''x'' empty_state =
     (Inr blank_asset, empty_state\<lparr>stdout :=
        [''Error when creating image: Extension bmp is not valid.'']\<rparr>) \<and>
   pipeline_failure env_fail ''x'' = None \<and> guess_ext env_fail ''x'' = Inr ''png'' \<and>
   upload_failure env_fail (make_salt env_fail @ ''.png'') = Some ''Unable to locate credentials'' \<and>
   (\<exists>a st'. Asset env_fail ''x'' empty_state = (Inr a, st') \<and> populated a \<and>
      stdout st' = [''Error when uploading image: Unable to locate credentials''])"
proof -
  have b: "pipeline_failure env_bmp ''x'' = Some ''Extension bmp is not valid.''"
    by code_simp
  have f: "pipeline_failure env_fail ''x'' = None" "guess_ext env_fail ''x'' = Inr ''png''"
    "upload_failure env_fail (make_salt env_fail @ ''.png'') = Some ''Unable to locate credentials''"
    by code_simp+
  have e: "stdout empty_state = []" by (simp add: empty_state_def)
  from asset_failures_caught [of env_bmp "''x''" empty_state "''Extension bmp is not valid.''"] b
  have 1: "Asset env_bmp ''x'' empty_state =
     (Inr blank_asset, empty_state\<lparr>stdout :=
        [''Error when creating image: Extension bmp is not valid.'']\<rparr>)"
    by (simp add: e)
  from asset_failures_caught [of env_fail "''x''" empty_state _ "''png''"
      "''Unable to locate credentials''"] f
  have 2: "\<exists>a st'. Asset env_fail ''x'' empty_state = (Inr a, st') \<and> populated a \<and>
      stdout st' = [''Error when uploading image: Unable to locate credentials'']"
    by (simp add: e)
  from b f 1 2 show ?thesis by simp
qed

section \<open>Deleting a playlist and removing its image\<close>

lemma find_filter_None: "find P (filter (\<lambda>x. \<not> P x) xs) = None"
  by (induction xs) auto

text \<open>
  C2 as stated fails: \<^verbatim>\<open>delete_playlist\<close> on a playlist with an image deletes the image
  row by the cascade and leaves the asset table as it is.
\<close>

theorem delete_playlist_asset_counterexample:
  "get_playlist st_image 1 =
     Some \<lparr>p_id = 1, playlist_name = ''mix'', user_id = 1, image_id = Some 1\<rparr> \<and>
   images st_image = [\<lparr>i_id = 1,
     i_link = ''https://b.s3.us-east-1.amazonaws.com/AAAAAAAAAAAAAAAA.png''\<rparr>] \<and>
   assets st_image = [asset_A\<lparr>a_id := Some 1\<rparr>] \<and>
   asset_url (asset_A\<lparr>a_id := Some 1\<rparr>) =
     ''https://b.s3.us-east-1.amazonaws.com/AAAAAAAAAAAAAAAA.png'' \<and>
   images (snd (delete_playlist 1 st_image)) = [] \<and>
   assets (snd (delete_playlist 1 st_image)) = [asset_A\<lparr>a_id := Some 1\<rparr>]"
  by code_simp

text \<open>
  C2, amended. \<^verbatim>\<open>delete_playlist\<close> on a playlist that has an image (and whose user
  exists) answers with the playlist's full representation and status 200, removes the
  playlist row and the image row, leaves every asset row in place, and leaves the objects
  of the bucket as they are.
\<close>

theorem delete_playlist_keeps_assets:
  "first_by_id (get_playlist st) pid = Inr (Some p) \<and> playlist_user st p = Some u \<and>
   playlist_image st p = Some i \<longrightarrow>
     (\<exists>j. Playlist_serialize st p = Inr j \<and>
        fst (delete_playlist pid st) = success_response j 200) \<and>
     get_playlist (snd (delete_playlist pid st)) pid = None \<and>
     get_img (snd (delete_playlist pid st)) (Some (i_id i)) = None \<and>
     assets (snd (delete_playlist pid st)) = assets st \<and>
     remote (snd (delete_playlist pid st)) = remote st"
proof (intro impI, elim conjE)
  assume p: "first_by_id (get_playlist st) pid = Inr (Some p)"
    and u: "playlist_user st p = Some u" and i: "playlist_image st p = Some i"
  obtain j where j: "Playlist_serialize st p = Inr j"
    by (simp add: Playlist_serialize_def u)
  define st' where "st' = snd (delete_playlist pid st)"
  have st': "st' = (delete_image (i_id i) st)\<lparr>
      playlists := filter (\<lambda>q. p_id q \<noteq> pid) (playlists (delete_image (i_id i) st)),
      assoc := filter (\<lambda>r. fst r \<noteq> pid) (assoc (delete_image (i_id i) st))\<rparr>"
    by (simp add: st'_def delete_playlist_def p j i Let_def)
  have r: "fst (delete_playlist pid st) = success_response j 200"
    by (simp add: delete_playlist_def p j i Let_def)
  have 1: "get_playlist st' pid = None"
    unfolding st' get_playlist_def by (simp add: find_filter_None)
  have 2: "get_img st' (Some (i_id i)) = None"
    unfolding st' get_img_def delete_image_def by (simp add: find_filter_None)
  have 3: "assets st' = assets st" "remote st' = remote st"
    unfolding st' delete_image_def by simp_all
  from j r 1 2 3 show "(\<exists>j. Playlist_serialize st p = Inr j \<and>
        fst (delete_playlist pid st) = success_response j 200) \<and>
     get_playlist (snd (delete_playlist pid st)) pid = None \<and>
     get_img (snd (delete_playlist pid st)) (Some (i_id i)) = None \<and>
     assets (snd (delete_playlist pid st)) = assets st \<and>
     remote (snd (delete_playlist pid st)) = remote st"
    unfolding st'_def by blast
qed

theorem delete_playlist_keeps_assets_witness:
  "first_by_id (get_playlist st_image) 1 =
     Inr (Some \<lparr>p_id = 1, playlist_name = ''mix'', user_id = 1, image_id = Some 1\<rparr>) \<and>
   playlist_user st_image \<lparr>p_id = 1, playlist_name = ''mix'', user_id = 1, image_id = Some 1\<rparr>
     = Some \<lparr>u_id = 1, username = ''alice''\<rparr> \<and>
   playlist_image st_image \<lparr>p_id = 1, playlist_name = ''mix'', user_id = 1, image_id = Some 1\<rparr>
     = Some \<lparr>i_id = 1, i_link = ''https://b.s3.us-east-1.amazonaws.com/AAAAAAAAAAAAAAAA.png''\<rparr> \<and>
   get_playlist (snd (delete_playlist 1 st_image)) 1 = None \<and>
   get_img (snd (delete_playlist 1 st_image)) (Some 1) = None \<and>
   assets (snd (delete_playlist 1 st_image)) = assets st_image \<and>
   remote (snd (delete_playlist 1 st_image)) = remote st_image"
proof -
  have p: "first_by_id (get_playlist st_image) 1 =
     Inr (Some \<lparr>p_id = 1, playlist_name = ''mix'', user_id = 1, image_id = Some 1\<rparr>)"
    by code_simp
  have u: "playlist_user st_image
      \<lparr>p_id = 1, playlist_name = ''mix'', user_id = 1, image_id = Some 1\<rparr>
     = Some \<lparr>u_id = 1, username = ''alice''\<rparr>"
    by code_simp
  have i: "playlist_image st_image
      \<lparr>p_id = 1, playlist_name = ''mix'', user_id = 1, image_id = Some 1\<rparr>
     = Some \<lparr>i_id = 1, i_link = ''https://b.s3.us-east-1.amazonaws.com/AAAAAAAAAAAAAAAA.png''\<rparr>"
    by code_simp
  from delete_playlist_keeps_assets [of st_image 1
      "\<lparr>p_id = 1, playlist_name = ''mix'', user_id = 1, image_id = Some 1\<rparr>"
      "\<lparr>u_id = 1, username = ''alice''\<rparr>"
      "\<lparr>i_id = 1, i_link = ''https://b.s3.us-east-1.amazonaws.com/AAAAAAAAAAAAAAAA.png''\<rparr>"]
    p u i
  show ?thesis by simp
qed

text \<open>
  C1 at a database that the handlers reach from the empty one (\<open>st_reuse\<close>): the image of
  playlist 2 has id 1 and the link of the second upload, whose asset has id 2; the asset
  with id 1 belongs to the first upload. \<^verbatim>\<open>remove_playlist_image\<close> answers with the image's
  record and status 200, deletes the image row, deletes the asset with id 1, and leaves
  the asset of the image's link in the table. The objects of the bucket stay.
\<close>

theorem remove_image_deletes_other_asset:
  "get_playlist st_reuse 2 =
     Some \<lparr>p_id = 2, playlist_name = ''gym'', user_id = 1, image_id = Some 1\<rparr> \<and>
   images st_reuse = [\<lparr>i_id = 1,
     i_link = ''https://b.s3.us-east-1.amazonaws.com/BBBBBBBBBBBBBBBB.png''\<rparr>] \<and>
   map (\<lambda>a. (a_id a, asset_url a)) (assets st_reuse) =
     [(Some 1, ''https://b.s3.us-east-1.amazonaws.com/AAAAAAAAAAAAAAAA.png''),
      (Some 2, ''https://b.s3.us-east-1.amazonaws.com/BBBBBBBBBBBBBBBB.png'')] \<and>
   fst (remove_playlist_image 2 st_reuse) =
     success_response (JObj [(''id'', JInt 1),
       (''link'', JStr ''https://b.s3.us-east-1.amazonaws.com/BBBBBBBBBBBBBBBB.png''),
       (''playlist'', JObj [(''id'', JInt 2), (''playlist_name'', JStr ''gym'')])]) 200 \<and>
   images (snd (remove_playlist_image 2 st_reuse)) = [] \<and>
   map (\<lambda>a. (a_id a, asset_url a)) (assets (snd (remove_playlist_image 2 st_reuse))) =
     [(Some 2, ''https://b.s3.us-east-1.amazonaws.com/BBBBBBBBBBBBBBBB.png'')] \<and>
   remote (snd (remove_playlist_image 2 st_reuse)) = remote st_reuse"
  by code_simp

section \<open>Errors at the boundary of a handler\<close>

lemma envelope_create_new_user:
  "create_new_user (Object None) st = (failure_response ''Please input a username'' 400, st)"
  by (simp add: create_new_user_def)

lemma envelope_song_field:
  "t = None \<or> a = None \<or> b = None \<or> l = None \<longrightarrow>
     add_song_to_database (Object (t, a, b, l)) st =
       (failure_response ''Please input all requested data'' 400, st)"
  by (auto simp: add_song_to_database_def split: option.splits)

lemma envelope_song_duplicate:
  "(t, a, b, l) \<in> set (map song_tuple (songs st)) \<longrightarrow>
     add_song_to_database (Object (Some t, Some a, Some b, Some l)) st =
       (failure_response ''Song already exists'' 401, st)"
  by (simp add: add_song_eq)

lemma envelope_bounds_missing:
  "lo = JNull \<or> hi = JNull \<longrightarrow>
     get_songs_bpm (Object (lo, hi)) st = (failure_response ''Please input a bpm range'' 400, st)"
  by (auto simp: get_songs_bpm_def)

lemma envelope_no_song_in_range:
  "filter (\<lambda>s. m \<le> bpm s \<and> bpm s \<le> n) (songs st) = [] \<longrightarrow>
     get_songs_bpm (Object (JInt m, JInt n)) st =
       (failure_response ''No songs in this range were found'' 400, st)"
  by (simp add: get_songs_bpm_def filter_loop_int)

lemma envelope_no_user:
  "first_by_id (get_user st) uid = Inr None \<longrightarrow>
     get_user_playlists uid st = (failure_response ''User not found'' 404, st) \<and>
     create_new_playlist uid body st = (failure_response ''User not found'' 404, st)"
  by (simp add: get_user_playlists_def create_new_playlist_def)

lemma envelope_playlist_name:
  "first_by_id (get_user st) uid = Inr (Some u) \<longrightarrow>
     create_new_playlist uid (Object None) st =
       (failure_response ''Please input a playlist name'' 400, st)"
  by (simp add: create_new_playlist_def)

lemma envelope_no_playlist:
  "first_by_id (get_playlist st) pid = Inr None \<longrightarrow>
     get_specific_playlist pid st = (failure_response ''Playlist not found'' 404, st) \<and>
     delete_playlist pid st = (failure_response ''Playlist not found'' 404, st) \<and>
     add_song_to_playlist pid sid st = (failure_response ''Playlist not found'' 404, st) \<and>
     remove_song_from_playlist pid sid st = (failure_response ''Playlist not found'' 404, st) \<and>
     upload_playlist_image e pid body st = (failure_response ''Playlist not found'' 404, st) \<and>
     remove_playlist_image pid st = (failure_response ''Playlist not found'' 404, st)"
  by (simp add: get_specific_playlist_def delete_playlist_def add_song_to_playlist_def
      add_song_to_playlist_with_def remove_song_from_playlist_def upload_playlist_image_def
      remove_playlist_image_def)

lemma envelope_image_data:
  "first_by_id (get_playlist st) pid = Inr (Some p) \<longrightarrow>
     upload_playlist_image e pid (Object None) st =
       (failure_response ''No base64 image found.'' 404, st)"
  by (simp add: upload_playlist_image_def)

lemma envelope_no_song:
  "first_by_id (get_song st) sid = Inr None \<longrightarrow>
     get_song_from_playlist sid st = (failure_response ''Song not found'' 404, st) \<and>
     (first_by_id (get_playlist st) pid = Inr (Some p) \<longrightarrow>
        add_song_to_playlist pid sid st = (failure_response ''Song not found'' 404, st) \<and>
        remove_song_from_playlist pid sid st = (failure_response ''Song not found'' 404, st))"
  by (simp add: get_song_from_playlist_def add_song_to_playlist_def
      add_song_to_playlist_with_def remove_song_from_playlist_def)

lemma envelope_not_member:
  "first_by_id (get_playlist st) pid = Inr (Some p) \<and>
   first_by_id (get_song st) sid = Inr (Some s) \<and> (pid, sid) \<notin> set (assoc st) \<longrightarrow>
     remove_song_from_playlist pid sid st = (failure_response ''Song not in playlist'' 400, st)"
  by (simp add: remove_not_member)

lemma envelope_no_image:
  "first_by_id (get_playlist st) pid = Inr (Some p) \<and> playlist_image st p = None \<longrightarrow>
     remove_playlist_image pid st =
       (failure_response ''There is no image associated with this playlist'' 404, st)"
  by (simp add: remove_playlist_image_def playlist_image_def)

lemma filter_loop_bad:
  "py_index lo = None \<or> py_index hi = None \<Longrightarrow>
     filter_loop lo hi ss acc = (if ss = [] then Inr acc else Inl TypeError)"
  by (cases ss) (auto simp: in_range_def split: option.splits)

lemma fault_bounds:
  "lo \<noteq> JNull \<and> hi \<noteq> JNull \<and> (py_index lo = None \<or> py_index hi = None) \<and> songs st \<noteq> [] \<longrightarrow>
     get_songs_bpm (Object (lo, hi)) st = (Unhandled TypeError, st)"
  by (auto simp: get_songs_bpm_def filter_loop_bad)

lemma fault_asset:
  "first_by_id (get_playlist st) pid = Inr (Some p) \<and> pipeline_failure e d = Some m \<longrightarrow>
     upload_playlist_image e pid (Object (Some d)) st =
       (Unhandled IntegrityError,
        st\<lparr>stdout := stdout st @ [''Error when creating image: '' @ m]\<rparr>)"
  by (simp add: upload_playlist_image_def Asset_failure commit_asset_def blank_unpopulated)

text \<open>
  C7 as stated fails: no handler has a \<^verbatim>\<open>try\<close> at its boundary. A tempo search whose
  bounds are strings raises a type error in \<^verbatim>\<open>range\<close>, and the upload of an image of an
  unsupported type, whose failure the asset pipeline has caught and printed, raises an
  integrity error at the commit of the asset.
\<close>

theorem unhandled_fault_counterexample:
  "get_songs_bpm (Object (JStr ''slow'', JStr ''fast'')) st_song =
     (Unhandled TypeError, st_song) \<and>
   fst (upload_playlist_image env_bmp 1 (Object (Some ''x'')) st_two) =
     Unhandled IntegrityError"
  by code_simp

text \<open>
  C7, amended. Every condition that a handler tests is answered with the failure
  envelope and leaves the state as it is: a required field that is missing (status 400,
  and 404 for the image data), a user, a playlist or a song that the lookup does not find
  (404), a song tuple that is stored (401), bounds with no song between them (400), a
  song that is not in the playlist (400), a playlist without an image (404). Two faults
  that no handler tests leave the handler as exceptions: bounds of the tempo search that
  are not integers, when a song is stored, and an asset whose pipeline failed before the
  upload.
\<close>

theorem tested_errors_enveloped:
  "create_new_user (Object None) st = (failure_response ''Please input a username'' 400, st) \<and>
   (t = None \<or> a = None \<or> b = None \<or> l = None \<longrightarrow>
      add_song_to_database (Object (t, a, b, l)) st =
        (failure_response ''Please input all requested data'' 400, st)) \<and>
   ((t', a', b', l') \<in> set (map song_tuple (songs st)) \<longrightarrow>
      add_song_to_database (Object (Some t', Some a', Some b', Some l')) st =
        (failure_response ''Song already exists'' 401, st)) \<and>
   (lo = JNull \<or> hi = JNull \<longrightarrow>
      get_songs_bpm (Object (lo, hi)) st =
        (failure_response ''Please input a bpm range'' 400, st)) \<and>
   (filter (\<lambda>s. m \<le> bpm s \<and> bpm s \<le> n) (songs st) = [] \<longrightarrow>
      get_songs_bpm (Object (JInt m, JInt n)) st =
        (failure_response ''No songs in this range were found'' 400, st)) \<and>
   (first_by_id (get_user st) uid = Inr None \<longrightarrow>
      get_user_playlists uid st = (failure_response ''User not found'' 404, st) \<and>
      create_new_playlist uid body st = (failure_response ''User not found'' 404, st)) \<and>
   (first_by_id (get_user st) uid' = Inr (Some u) \<longrightarrow>
      create_new_playlist uid' (Object None) st =
        (failure_response ''Please input a playlist name'' 400, st)) \<and>
   (first_by_id (get_playlist st) pid = Inr None \<longrightarrow>
      get_specific_playlist pid st = (failure_response ''Playlist not found'' 404, st) \<and>
      delete_playlist pid st = (failure_response ''Playlist not found'' 404, st) \<and>
      add_song_to_playlist pid sid st = (failure_response ''Playlist not found'' 404, st) \<and>
      remove_song_from_playlist pid sid st =
        (failure_response ''Playlist not found'' 404, st) \<and>
      upload_playlist_image e pid body' st =
        (failure_response ''Playlist not found'' 404, st) \<and>
      remove_playlist_image pid st = (failure_response ''Playlist not found'' 404, st)) \<and>
   (first_by_id (get_playlist st) pid' = Inr (Some p) \<longrightarrow>
      upload_playlist_image e pid' (Object None) st =
        (failure_response ''No base64 image found.'' 404, st)) \<and>
   (first_by_id (get_song st) sid' = Inr None \<longrightarrow>
      get_song_from_playlist sid' st = (failure_response ''Song not found'' 404, st) \<and>
      (first_by_id (get_playlist st) pid' = Inr (Some p) \<longrightarrow>
         add_song_to_playlist pid' sid' st = (failure_response ''Song not found'' 404, st) \<and>
         remove_song_from_playlist pid' sid' st =
           (failure_response ''Song not found'' 404, st))) \<and>
   (first_by_id (get_playlist st) pid' = Inr (Some p) \<and>
    first_by_id (get_song st) sid'' = Inr (Some s) \<and> (pid', sid'') \<notin> set (assoc st) \<longrightarrow>
      remove_song_from_playlist pid' sid'' st =
        (failure_response ''Song not in playlist'' 400, st)) \<and>
   (first_by_id (get_playlist st) pid' = Inr (Some p) \<and> playlist_image st p = None \<longrightarrow>
      remove_playlist_image pid' st =
        (failure_response ''There is no image associated with this playlist'' 404, st)) \<and>
   (lo' \<noteq> JNull \<and> hi' \<noteq> JNull \<and> (py_index lo' = None \<or> py_index hi' = None) \<and>
    songs st \<noteq> [] \<longrightarrow>
      get_songs_bpm (Object (lo', hi')) st = (Unhandled TypeError, st)) \<and>
   (first_by_id (get_playlist st) pid' = Inr (Some p) \<and> pipeline_failure e' d = Some msg \<longrightarrow>
      upload_playlist_image e' pid' (Object (Some d)) st =
        (Unhandled IntegrityError,
         st\<lparr>stdout := stdout st @ [''Error when creating image: '' @ msg]\<rparr>))"
  by (intro conjI envelope_create_new_user envelope_song_field envelope_song_duplicate
      envelope_bounds_missing envelope_no_song_in_range envelope_no_user
      envelope_playlist_name envelope_no_playlist envelope_image_data envelope_no_song
      envelope_not_member envelope_no_image fault_bounds fault_asset)

theorem tested_errors_enveloped_witness:
  "(''A'', ''B'', 120, ''http://x'') \<in> set (map song_tuple (songs st_song)) \<and>
   filter (\<lambda>s. 200 \<le> bpm s \<and> bpm s \<le> 300) (songs st_song) = [] \<and>
   first_by_id (get_user st_song) 2 = Inr None \<and>
   first_by_id (get_user st_song) 1 = Inr (Some \<lparr>u_id = 1, username = ''alice''\<rparr>) \<and>
   first_by_id (get_playlist st_song) 2 = Inr None \<and>
   first_by_id (get_playlist st_song) 1 =
     Inr (Some \<lparr>p_id = 1, playlist_name = ''mix'', user_id = 1, image_id = None\<rparr>) \<and>
   first_by_id (get_song st_song) 2 = Inr None \<and>
   first_by_id (get_song st_song) 1 =
     Inr (Some \<lparr>s_id = 1, title = ''A'', artist = ''B'', bpm = 120, link = ''http://x''\<rparr>) \<and>
   (1, 1) \<notin> set (assoc st_song) \<and>
   playlist_image st_song \<lparr>p_id = 1, playlist_name = ''mix'', user_id = 1, image_id = None\<rparr>
     = None \<and>
   py_index (JStr ''slow'') = None \<and>
   songs st_song \<noteq> [] \<and>
   pipeline_failure env_bmp ''x'' = Some ''Extension bmp is not valid.'' \<and>
   add_song_to_database (Object (None, Some ''B'', Some 120, Some ''http://x'')) st_song =
     (failure_response ''Please input all requested data'' 400, st_song) \<and>
   add_song_to_database (Object (Some ''A'', Some ''B'', Some 120, Some ''http://x'')) st_song =
     (failure_response ''Song already exists'' 401, st_song) \<and>
   get_songs_bpm (Object (JNull, JInt 130)) st_song =
     (failure_response ''Please input a bpm range'' 400, st_song) \<and>
   get_songs_bpm (Object (JInt 200, JInt 300)) st_song =
     (failure_response ''No songs in this range were found'' 400, st_song) \<and>
   get_user_playlists 2 st_song = (failure_response ''User not found'' 404, st_song) \<and>
   create_new_playlist 2 Not_JSON st_song = (failure_response ''User not found'' 404, st_song) \<and>
   create_new_playlist 1 (Object None) st_song =
     (failure_response ''Please input a playlist name'' 400, st_song) \<and>
   get_specific_playlist 2 st_song = (failure_response ''Playlist not found'' 404, st_song) \<and>
   delete_playlist 2 st_song = (failure_response ''Playlist not found'' 404, st_song) \<and>
   add_song_to_playlist 2 1 st_song = (failure_response ''Playlist not found'' 404, st_song) \<and>
   remove_song_from_playlist 2 1 st_song =
     (failure_response ''Playlist not found'' 404, st_song) \<and>
   upload_playlist_image env_a 2 (Object (Some ''x'')) st_song =
     (failure_response ''Playlist not found'' 404, st_song) \<and>
   remove_playlist_image 2 st_song = (failure_response ''Playlist not found'' 404, st_song) \<and>
   upload_playlist_image env_a 1 (Object None) st_song =
     (failure_response ''No base64 image found.'' 404, st_song) \<and>
   get_song_from_playlist 2 st_song = (failure_response ''Song not found'' 404, st_song) \<and>
   add_song_to_playlist 1 2 st_song = (failure_response ''Song not found'' 404, st_song) \<and>
   remove_song_from_playlist 1 2 st_song = (failure_response ''Song not found'' 404, st_song) \<and>
   remove_song_from_playlist 1 1 st_song =
     (failure_response ''Song not in playlist'' 400, st_song) \<and>
   remove_playlist_image 1 st_song =
     (failure_response ''There is no image associated with this playlist'' 404, st_song) \<and>
   get_songs_bpm (Object (JStr ''slow'', JStr ''fast'')) st_song =
     (Unhandled TypeError, st_song) \<and>
   upload_playlist_image env_bmp 1 (Object (Some ''x'')) st_song =
     (Unhandled IntegrityError, st_song\<lparr>stdout := stdout st_song @
        [''Error when creating image: Extension bmp is not valid.'']\<rparr>)"
proof -
  have h1: "(''A'', ''B'', 120, ''http://x'') \<in> set (map song_tuple (songs st_song))"
    by code_simp
  have h2: "filter (\<lambda>s. 200 \<le> bpm s \<and> bpm s \<le> 300) (songs st_song) = []"
    by code_simp
  have h3: "first_by_id (get_user st_song) 2 = Inr None"
    by code_simp
  have h4: "first_by_id (get_user st_song) 1 = Inr (Some \<lparr>u_id = 1, username = ''alice''\<rparr>)"
    by code_simp
  have h5: "first_by_id (get_playlist st_song) 2 = Inr None"
    by code_simp
  have h6: "first_by_id (get_playlist st_song) 1 =
     Inr (Some \<lparr>p_id = 1, playlist_name = ''mix'', user_id = 1, image_id = None\<rparr>)"
    by code_simp
  have h7: "first_by_id (get_song st_song) 2 = Inr None"
    by code_simp
  have h8: "first_by_id (get_song st_song) 1 =
     Inr (Some \<lparr>s_id = 1, title = ''A'', artist = ''B'', bpm = 120, link = ''http://x''\<rparr>)"
    by code_simp
  have h9: "(1, 1) \<notin> set (assoc st_song)"
    by code_simp
  have h10: "playlist_image st_song \<lparr>p_id = 1, playlist_name = ''mix'', user_id = 1, image_id = None\<rparr>
     = None"
    by code_simp
  have h11: "py_index (JStr ''slow'') = None"
    by code_simp
  have h12: "songs st_song \<noteq> []"
    by code_simp
  have h13: "pipeline_failure env_bmp ''x'' = Some ''Extension bmp is not valid.''"
    by code_simp
  have n: "JStr ''slow'' \<noteq> JNull" "JStr ''fast'' \<noteq> JNull" by simp_all
  from tested_errors_enveloped [where st = st_song and t = None and a = "Some ''B''"
      and b = "Some 120" and l = "Some ''http://x''" and t' = "''A''" and a' = "''B''"
      and b' = 120 and l' = "''http://x''" and lo = JNull and hi = "JInt 130" and m = 200
      and n = 300 and uid = 2 and body = Not_JSON and uid' = 1
      and u = "\<lparr>u_id = 1, username = ''alice''\<rparr>" and pid = 2 and sid = 1
      and e = env_a and body' = "Object (Some ''x'')" and pid' = 1
      and p = "\<lparr>p_id = 1, playlist_name = ''mix'', user_id = 1, image_id = None\<rparr>"
      and sid' = 2 and sid'' = 1
      and s = "\<lparr>s_id = 1, title = ''A'', artist = ''B'', bpm = 120, link = ''http://x''\<rparr>"
      and lo' = "JStr ''slow''" and hi' = "JStr ''fast''" and e' = env_bmp and d = "''x''"
      and msg = "''Extension bmp is not valid.''"]
    h1 h2 h3 h4 h5 h6 h7 h8 h9 h10 h11 h12 h13 n
  show ?thesis by simp
qed

end
